theory Spec2Isabelle
  imports Complex_Main
begin

section \<open>Python values, exceptions and comparisons\<close>

text \<open>
  The exceptions that the modelled code can raise. \<open>KeyError\<close> is a dictionary lookup of
  an absent key, \<open>TypeError\<close> an ordering comparison (or \<open>float(...)\<close>) applied to
  \<open>None\<close>, \<open>ValueError\<close> a timestamp outside the years of \<open>datetime\<close>,
  \<open>OverflowError\<close> a number too large for its target type; the other three are
  the repository's and the broker client's own.
\<close>

datatype error =
    KeyError
  | TypeError
  | ValueError
  | OverflowError
  | ReceivedUnexpectedDataException
  | MessageWasNotDeliveredException
  | OtherException

text \<open>
  A JSON number or \<open>null\<close> is a \<open>real option\<close>. Python's \<open>a <= b\<close> and \<open>a < b\<close> raise
  \<open>TypeError\<close> when an operand is \<open>None\<close>; \<open>and\<close> evaluates its right operand only when
  the left one is true.
\<close>

definition py_le :: "real option \<Rightarrow> real option \<Rightarrow> error + bool" where
  "py_le a b = (case a of None \<Rightarrow> Inl TypeError
                | Some x \<Rightarrow> (case b of None \<Rightarrow> Inl TypeError | Some y \<Rightarrow> Inr (x \<le> y)))"

definition py_lt :: "real option \<Rightarrow> real option \<Rightarrow> error + bool" where
  "py_lt a b = (case a of None \<Rightarrow> Inl TypeError
                | Some x \<Rightarrow> (case b of None \<Rightarrow> Inl TypeError | Some y \<Rightarrow> Inr (x < y)))"

definition py_and :: "error + bool \<Rightarrow> error + bool \<Rightarrow> error + bool" where
  "py_and a b = (case a of Inl e \<Rightarrow> Inl e | Inr x \<Rightarrow> (if x then b else Inr False))"

definition py_not :: "error + bool \<Rightarrow> error + bool" where
  "py_not a = (case a of Inl e \<Rightarrow> Inl e | Inr x \<Rightarrow> Inr (\<not> x))"

section \<open>The rate limiter\<close>

text \<open>
  Modelled from the spec: the class \<open>TimedTaskLimiter\<close> of \<open>src/utils/timing.py\<close> is not
  among the sources. The specification gives it a fixed interval and the instant of the
  last execution, if any; \<open>can_do(now)\<close> holds iff there was no execution yet or
  \<open>now - last_done_at \<ge> interval\<close>; \<open>record(now)\<close> stores \<open>now\<close> unconditionally;
  \<open>reset()\<close> clears the instant. The instants are the naive local datetimes that the
  alerter hands to the limiter, as seconds on the local time line; the difference of two
  of them is their \<open>timedelta\<close>.
\<close>

record TimedTaskLimiter =
  time_interval :: real
  last_time_that_did_task :: "real option"

definition new_TimedTaskLimiter :: "real \<Rightarrow> TimedTaskLimiter" where
  "new_TimedTaskLimiter i = \<lparr>time_interval = i, last_time_that_did_task = None\<rparr>"

definition can_do_task :: "TimedTaskLimiter \<Rightarrow> real \<Rightarrow> bool" where
  "can_do_task l now =
     (case last_time_that_did_task l of None \<Rightarrow> True | Some t \<Rightarrow> time_interval l \<le> now - t)"

definition set_last_time_that_did_task :: "TimedTaskLimiter \<Rightarrow> real \<Rightarrow> TimedTaskLimiter" where
  "set_last_time_that_did_task l now = l\<lparr>last_time_that_did_task := Some now\<rparr>"

definition reset :: "TimedTaskLimiter \<Rightarrow> TimedTaskLimiter" where
  "reset l = l\<lparr>last_time_that_did_task := None\<rparr>"

section \<open>Configuration, messages and alerts\<close>

text \<open>
  A threshold spec after \<open>str_to_bool\<close>, \<open>convert_to_float_if_not_none_and_not_empty_str\<close>
  (default \<open>None\<close>) and \<open>int(...)\<close> have been applied to its entries: the three switches are
  booleans, a threshold is a number or \<open>None\<close>, the repeat interval is a number of seconds.
\<close>

record threshold_spec =
  enabled :: bool
  warning_enabled :: bool
  critical_enabled :: bool
  warning_threshold :: "real option"
  critical_threshold :: "real option"
  critical_repeat :: int

record SystemAlertsConfig =
  parent_id :: string
  open_file_descriptors :: threshold_spec
  system_cpu_usage :: threshold_spec
  system_storage_usage :: threshold_spec
  system_ram_usage :: threshold_spec
  system_is_down :: threshold_spec

datatype limiter_name =
    OPEN_FD_LIMITER_NAME
  | CPU_USE_LIMITER_NAME
  | STORAGE_USE_LIMITER_NAME
  | RAM_USE_LIMITER_NAME
  | IS_DOWN_LIMITER_NAME

record sample =
  current :: "real option"
  previous :: "real option"

record metrics =
  went_down_at :: sample
  m_open_file_descriptors :: sample
  m_system_storage_usage :: sample
  m_system_cpu_usage :: sample
  m_system_ram_usage :: sample

record meta_common =
  system_id :: string
  system_parent_id :: string
  system_name :: string

record result_meta = meta_common +
  last_monitored :: real

record error_meta = meta_common +
  time :: real

record error_data =
  code :: int
  message :: string
  meta_data :: error_meta
  data_went_down_at :: sample

datatype incoming =
    Result metrics result_meta
  | Error error_data
  | Unexpected

datatype severity = INFO | WARNING | CRITICAL | ERROR

text \<open>
  One constructor per alert class of \<open>src/alerter/alerts/system_alerts.py\<close>, with the
  arguments in the order in which the alerter passes them. The threshold alerts take
  \<open>(system_name, current, severity, timestamp, threshold_severity, parent_id, system_id)\<close>.
  The \<open>alert_data\<close> of an alert is the alert itself.
\<close>

datatype alert =
    MetricNotFoundErrorAlert string severity real string string
  | InvalidUrlAlert string severity real string string
  | SystemWentDownAtAlert string severity real string string
  | SystemStillDownAlert string real severity real string string
  | SystemBackUpAgainAlert string severity real string string
  | OpenFileDescriptorsIncreasedAboveThresholdAlert string real severity real severity string string
  | OpenFileDescriptorsDecreasedBelowThresholdAlert string real severity real severity string string
  | SystemStorageUsageIncreasedAboveThresholdAlert string real severity real severity string string
  | SystemStorageUsageDecreasedBelowThresholdAlert string real severity real severity string string
  | SystemCPUUsageIncreasedAboveThresholdAlert string real severity real severity string string
  | SystemCPUUsageDecreasedBelowThresholdAlert string real severity real severity string string
  | SystemRAMUsageIncreasedAboveThresholdAlert string real severity real severity string string
  | SystemRAMUsageDecreasedBelowThresholdAlert string real severity real severity string string

type_synonym threshold_alert =
  "string \<Rightarrow> real \<Rightarrow> severity \<Rightarrow> real \<Rightarrow> severity \<Rightarrow> string \<Rightarrow> string \<Rightarrow> alert"

section \<open>The state of the system alerter\<close>

record alerter_state =
  system_initial_downtime_alert_sent :: "string \<rightharpoonup> bool"
  system_critical_timed_task_limiters :: "string \<rightharpoonup> (limiter_name \<Rightarrow> TimedTaskLimiter)"

definition init_state :: alerter_state where
  "init_state = \<lparr>system_initial_downtime_alert_sent = Map.empty,
                 system_critical_timed_task_limiters = Map.empty\<rparr>"

fun config_of :: "SystemAlertsConfig \<Rightarrow> limiter_name \<Rightarrow> threshold_spec" where
  "config_of cfg OPEN_FD_LIMITER_NAME = open_file_descriptors cfg"
| "config_of cfg CPU_USE_LIMITER_NAME = system_cpu_usage cfg"
| "config_of cfg STORAGE_USE_LIMITER_NAME = system_storage_usage cfg"
| "config_of cfg RAM_USE_LIMITER_NAME = system_ram_usage cfg"
| "config_of cfg IS_DOWN_LIMITER_NAME = system_is_down cfg"

text \<open>
  \<open>_create_state_for_system\<close>: each of the two dictionaries gets an entry for the system
  unless it has one; the five limiters are built from the \<open>critical_repeat\<close> of the
  metric they are named after.
\<close>

definition create_state_for_system ::
  "SystemAlertsConfig \<Rightarrow> alerter_state \<Rightarrow> string \<Rightarrow> alerter_state" where
  "create_state_for_system cfg st sid =
     (let st1 = (if sid \<notin> dom (system_initial_downtime_alert_sent st)
                 then st\<lparr>system_initial_downtime_alert_sent :=
                           (system_initial_downtime_alert_sent st)(sid \<mapsto> False)\<rparr>
                 else st)
      in if sid \<notin> dom (system_critical_timed_task_limiters st1)
         then st1\<lparr>system_critical_timed_task_limiters :=
                    (system_critical_timed_task_limiters st1)
                      (sid \<mapsto> (\<lambda>n. new_TimedTaskLimiter
                                        (real_of_int (critical_repeat (config_of cfg n)))))\<rparr>
         else st1)"

text \<open>
  A classification step returns the exception it raised, if any, the list
  \<open>data_for_alerting\<close> as the step left it (the list is extended in place, so what was
  appended before a raise stays in it) and the state.
\<close>

type_synonym outcome = "error option \<times> alert list \<times> alerter_state"

definition set_limiter ::
  "alerter_state \<Rightarrow> string \<Rightarrow> limiter_name \<Rightarrow> TimedTaskLimiter \<Rightarrow> alerter_state" where
  "set_limiter st sid n l =
     st\<lparr>system_critical_timed_task_limiters :=
          (case system_critical_timed_task_limiters st sid of
             None \<Rightarrow> system_critical_timed_task_limiters st
           | Some ls \<Rightarrow> (system_critical_timed_task_limiters st)(sid \<mapsto> ls(n := l)))\<rparr>"

section \<open>Local time\<close>

text \<open>
  \<open>datetime.fromtimestamp\<close> of the host: it takes seconds since the epoch to the naive
  local datetime, here the seconds on the local time line, or raises (\<open>ValueError\<close>,
  \<open>OverflowError\<close> or another exception, by the platform) for a timestamp that it
  cannot convert. It depends on the time zone of the host, so it is a parameter of the
  alerter; across a change of the zone's offset it does not preserve differences.
\<close>

type_synonym local_time = "real \<Rightarrow> error + real"


section \<open>Metric classification\<close>

text \<open>
  The two blocks of \<open>_classify_alert\<close>. A comparison with a threshold or a previous
  sample that is \<open>None\<close> raises \<open>TypeError\<close> at the point where Python evaluates it.
  The first block is \<open>if warning_enabled: ...\<close>; it touches only \<open>data_for_alerting\<close>.
\<close>

definition warning_block ::
  "real \<Rightarrow> real option \<Rightarrow> threshold_spec \<Rightarrow> result_meta \<Rightarrow>
   threshold_alert \<Rightarrow> threshold_alert \<Rightarrow> alert list \<Rightarrow> error option \<times> alert list" where
  "warning_block cur prev config meta increased_above_threshold_alert
                 decreased_below_threshold_alert data_for_alerting =
    (let w = warning_threshold config;
         c = critical_threshold config
     in if warning_enabled config then
          (case py_and (py_and (py_le w (Some cur)) (py_lt (Some cur) c))
                       (py_not (py_le w prev)) of
             Inl e \<Rightarrow> (Some e, data_for_alerting)
           | Inr b1 \<Rightarrow>
             if b1 then
               (None, data_for_alerting @
                  [increased_above_threshold_alert (system_name meta) cur WARNING
                     (last_monitored meta) WARNING (system_parent_id meta)
                     (system_id meta)])
             else
               (case py_and (py_lt (Some cur) w) (py_le w prev) of
                  Inl e \<Rightarrow> (Some e, data_for_alerting)
                | Inr b2 \<Rightarrow>
                  if b2 then
                    (None, data_for_alerting @
                       [decreased_below_threshold_alert (system_name meta) cur INFO
                          (last_monitored meta) WARNING (system_parent_id meta)
                          (system_id meta)])
                  else (None, data_for_alerting)))
        else (None, data_for_alerting))"

text \<open>
  The second block is \<open>if critical_enabled: ...\<close>, with the critical limiter of the
  metric; \<open>current >= critical_threshold\<close> is \<open>critical_threshold <= current\<close>. The block
  starts with \<open>datetime.fromtimestamp(float(meta_data['last_monitored']))\<close>, which
  raises when the timestamp does not convert; the limiter is asked and recorded with the
  converted instant.
\<close>

definition critical_block ::
  "local_time \<Rightarrow> alerter_state \<Rightarrow> TimedTaskLimiter \<Rightarrow> real \<Rightarrow> real option \<Rightarrow>
   threshold_spec \<Rightarrow> result_meta \<Rightarrow> threshold_alert \<Rightarrow> threshold_alert \<Rightarrow> alert list \<Rightarrow>
   limiter_name \<Rightarrow> outcome" where
  "critical_block fromtimestamp st critical_limiter cur prev config meta
                  increased_above_threshold_alert decreased_below_threshold_alert
                  data_for_alerting critical_limiter_name =
    (let w = warning_threshold config;
         c = critical_threshold config
     in if critical_enabled config then
          (case fromtimestamp (last_monitored meta) of
             Inl e \<Rightarrow> (Some e, data_for_alerting, st)
           | Inr monitoring_datetime \<Rightarrow>
             (case py_and (py_le c (Some cur))
                          (Inr (can_do_task critical_limiter monitoring_datetime)) of
                Inl e \<Rightarrow> (Some e, data_for_alerting, st)
              | Inr b3 \<Rightarrow>
                if b3 then
                  (None,
                   data_for_alerting @
                     [increased_above_threshold_alert (system_name meta) cur CRITICAL
                        (last_monitored meta) CRITICAL (system_parent_id meta)
                        (system_id meta)],
                   set_limiter st (system_id meta) critical_limiter_name
                     (set_last_time_that_did_task critical_limiter monitoring_datetime))
                else
                  (case py_and (py_and (py_lt w (Some cur)) (py_lt (Some cur) c))
                               (py_le c prev) of
                     Inl e \<Rightarrow> (Some e, data_for_alerting, st)
                   | Inr b4 \<Rightarrow>
                     if b4 then
                       (None,
                        data_for_alerting @
                          [decreased_below_threshold_alert (system_name meta) cur INFO
                             (last_monitored meta) CRITICAL (system_parent_id meta)
                             (system_id meta)],
                        set_limiter st (system_id meta) critical_limiter_name
                          (reset critical_limiter))
                     else (None, data_for_alerting, st))))
        else (None, data_for_alerting, st))"

text \<open>
  \<open>_classify_alert\<close>: the limiter of the metric is looked up first (a \<open>KeyError\<close> for a
  system without state), then the warning block runs, then the critical block.
\<close>

definition classify_alert ::
  "local_time \<Rightarrow> alerter_state \<Rightarrow> real \<Rightarrow> real option \<Rightarrow> threshold_spec \<Rightarrow> result_meta \<Rightarrow>
   threshold_alert \<Rightarrow> threshold_alert \<Rightarrow> alert list \<Rightarrow> limiter_name \<Rightarrow> outcome" where
  "classify_alert fromtimestamp st cur prev config meta increased_above_threshold_alert
                  decreased_below_threshold_alert data_for_alerting critical_limiter_name =
    (case system_critical_timed_task_limiters st (system_id meta) of
       None \<Rightarrow> (Some KeyError, data_for_alerting, st)
     | Some critical_limiters \<Rightarrow>
       (case warning_block cur prev config meta increased_above_threshold_alert
               decreased_below_threshold_alert data_for_alerting of
          (Some e, dfa) \<Rightarrow> (Some e, dfa, st)
        | (None, dfa) \<Rightarrow>
            critical_block fromtimestamp st (critical_limiters critical_limiter_name) cur prev
              config meta
              increased_above_threshold_alert decreased_below_threshold_alert dfa
              critical_limiter_name))"

section \<open>The error path\<close>

definition set_initial_downtime_alert_sent ::
  "alerter_state \<Rightarrow> string \<Rightarrow> bool \<Rightarrow> alerter_state" where
  "set_initial_downtime_alert_sent st sid b =
     st\<lparr>system_initial_downtime_alert_sent := (system_initial_downtime_alert_sent st)(sid \<mapsto> b)\<rparr>"

text \<open>
  \<open>_process_errors\<close>. For code 5004 the source reads, in this order,
  \<open>float(data['went_down_at']['current'])\<close> (a \<open>TypeError\<close> on \<open>None\<close>),
  \<open>datetime.fromtimestamp\<close> of the error's time (which raises when the time does not
  convert), the limiters of the system, the thresholds, and the flag of the system. The
  downtime is a difference of timestamps; the limiter gets the converted instant. The
  thresholds of \<open>is_down\<close> are converted with
  \<open>convert_to_int_if_not_none_and_not_empty_str\<close>; an integer is a real here.
\<close>

definition process_errors ::
  "local_time \<Rightarrow> SystemAlertsConfig \<Rightarrow> alerter_state \<Rightarrow> error_data \<Rightarrow> alert list \<Rightarrow> outcome"
  where
  "process_errors fromtimestamp cfg st err data_for_alerting =
    (let is_down = system_is_down cfg;
         meta = meta_data err
     in if code err = 5003 then
          (None,
           data_for_alerting @
             [MetricNotFoundErrorAlert (message err) ERROR (time meta) (system_parent_id meta)
                (system_id meta)],
           st)
        else if code err = 5009 then
          (None,
           data_for_alerting @
             [InvalidUrlAlert (message err) ERROR (time meta) (system_parent_id meta)
                (system_id meta)],
           st)
        else if code err = 5004 then
          (if enabled is_down then
             (case current (data_went_down_at err) of
                None \<Rightarrow> (Some TypeError, data_for_alerting, st)
              | Some cur \<Rightarrow>
                (let monitoring_timestamp = time meta
                 in case fromtimestamp monitoring_timestamp of
                      Inl e \<Rightarrow> (Some e, data_for_alerting, st)
                    | Inr monitoring_datetime \<Rightarrow>
                    case system_critical_timed_task_limiters st (system_id meta) of
                      None \<Rightarrow> (Some KeyError, data_for_alerting, st)
                    | Some critical_limiters \<Rightarrow>
                      (let is_down_critical_limiter = critical_limiters IS_DOWN_LIMITER_NAME;
                           downtime = monitoring_timestamp - cur
                       in case system_initial_downtime_alert_sent st (system_id meta) of
                            None \<Rightarrow> (Some KeyError, data_for_alerting, st)
                          | Some sent \<Rightarrow>
                            if \<not> sent then
                              (case py_and (Inr (critical_enabled is_down))
                                           (py_le (critical_threshold is_down) (Some downtime)) of
                                 Inl e \<Rightarrow> (Some e, data_for_alerting, st)
                               | Inr b1 \<Rightarrow>
                                 if b1 then
                                   (None,
                                    data_for_alerting @
                                      [SystemWentDownAtAlert (system_name meta) CRITICAL
                                         (time meta) (system_parent_id meta) (system_id meta)],
                                    set_initial_downtime_alert_sent
                                      (set_limiter st (system_id meta) IS_DOWN_LIMITER_NAME
                                         (set_last_time_that_did_task is_down_critical_limiter
                                            monitoring_datetime))
                                      (system_id meta) True)
                                 else
                                   (case py_and (Inr (warning_enabled is_down))
                                                (py_le (warning_threshold is_down)
                                                   (Some downtime)) of
                                      Inl e \<Rightarrow> (Some e, data_for_alerting, st)
                                    | Inr b2 \<Rightarrow>
                                      if b2 then
                                        (None,
                                         data_for_alerting @
                                           [SystemWentDownAtAlert (system_name meta) WARNING
                                              (time meta) (system_parent_id meta)
                                              (system_id meta)],
                                         set_initial_downtime_alert_sent
                                           (set_limiter st (system_id meta) IS_DOWN_LIMITER_NAME
                                              (set_last_time_that_did_task
                                                 is_down_critical_limiter monitoring_datetime))
                                           (system_id meta) True)
                                      else (None, data_for_alerting, st)))
                            else if critical_enabled is_down \<and>
                                    can_do_task is_down_critical_limiter monitoring_datetime then
                              (None,
                               data_for_alerting @
                                 [SystemStillDownAlert (system_name meta) downtime CRITICAL
                                    (time meta) (system_parent_id meta) (system_id meta)],
                               set_limiter st (system_id meta) IS_DOWN_LIMITER_NAME
                                 (set_last_time_that_did_task is_down_critical_limiter
                                    monitoring_datetime))
                            else (None, data_for_alerting, st))))
           else (None, data_for_alerting, st))
        else (None, data_for_alerting, st))"

section \<open>The result path\<close>

text \<open>
  Modelled from the spec: \<open>floaty\<close> of \<open>src/utils/alert.py\<close> is not among the sources.
  The specification has every sample a number or null and the classifier compare numbers:
  a number is converted to a float of the same value, null stays \<open>None\<close>.
\<close>

definition floaty :: "real option \<Rightarrow> real option" where
  "floaty v = (case v of None \<Rightarrow> None | Some x \<Rightarrow> Some x)"

text \<open>
  One of the four metric blocks of \<open>_process_results\<close>: \<open>gate\<close> is the spec whose
  \<open>enabled\<close> entry guards the block and \<open>config\<close> the spec handed to \<open>_classify_alert\<close>.
  \<open>current not in [previous, None]\<close> is false iff \<open>current == previous\<close> or \<open>current\<close> is
  \<open>None\<close>.
\<close>

definition classify_metric ::
  "local_time \<Rightarrow> alerter_state \<Rightarrow> threshold_spec \<Rightarrow> threshold_spec \<Rightarrow> sample \<Rightarrow>
   result_meta \<Rightarrow> threshold_alert \<Rightarrow> threshold_alert \<Rightarrow> alert list \<Rightarrow> limiter_name \<Rightarrow>
   outcome" where
  "classify_metric fromtimestamp st gate config s meta inc dec data_for_alerting
                   critical_limiter_name =
     (if enabled gate then
        (case current s of
           None \<Rightarrow> (None, data_for_alerting, st)
         | Some cur \<Rightarrow>
           if current s = previous s then (None, data_for_alerting, st)
           else classify_alert fromtimestamp st cur (floaty (previous s)) config meta inc dec
                  data_for_alerting critical_limiter_name)
      else (None, data_for_alerting, st))"

text \<open>The next block runs only if the blocks before it raised nothing.\<close>

definition and_then :: "outcome \<Rightarrow> (alerter_state \<Rightarrow> alert list \<Rightarrow> outcome) \<Rightarrow> outcome" where
  "and_then r f =
     (case r of (Some e, dfa, st) \<Rightarrow> (Some e, dfa, st) | (None, dfa, st) \<Rightarrow> f st dfa)"

text \<open>
  The \<open>is_down\<close> block of \<open>_process_results\<close>: a back-up alert whenever
  \<open>went_down_at.previous\<close> is not \<open>None\<close>.
\<close>

definition process_back_up ::
  "SystemAlertsConfig \<Rightarrow> alerter_state \<Rightarrow> metrics \<Rightarrow> result_meta \<Rightarrow> alert list \<Rightarrow> outcome" where
  "process_back_up cfg st ms meta data_for_alerting =
     (if enabled (system_is_down cfg) then
        (case system_critical_timed_task_limiters st (system_id meta) of
           None \<Rightarrow> (Some KeyError, data_for_alerting, st)
         | Some critical_limiters \<Rightarrow>
           (let is_down_critical_limiter = critical_limiters IS_DOWN_LIMITER_NAME
            in case previous (went_down_at ms) of
                 None \<Rightarrow> (None, data_for_alerting, st)
               | Some p \<Rightarrow>
                 (None,
                  data_for_alerting @
                    [SystemBackUpAgainAlert (system_name meta) INFO (last_monitored meta)
                       (system_parent_id meta) (system_id meta)],
                  set_limiter
                    (set_initial_downtime_alert_sent st (system_id meta) False)
                    (system_id meta) IS_DOWN_LIMITER_NAME (reset is_down_critical_limiter))))
      else (None, data_for_alerting, st))"

text \<open>
  \<open>_process_results\<close>: the \<open>is_down\<close> block, then open file descriptors, storage, CPU
  and RAM. The RAM block is guarded by \<open>ram_use['enabled']\<close> and hands \<open>cpu_use\<close> to
  \<open>_classify_alert\<close>, as the source does.
\<close>

definition process_results ::
  "local_time \<Rightarrow> SystemAlertsConfig \<Rightarrow> alerter_state \<Rightarrow> metrics \<Rightarrow> result_meta \<Rightarrow>
   alert list \<Rightarrow> outcome" where
  "process_results fromtimestamp cfg st ms meta data_for_alerting =
    (let open_fd = open_file_descriptors cfg;
         cpu_use = system_cpu_usage cfg;
         storage = system_storage_usage cfg;
         ram_use = system_ram_usage cfg
     in and_then
          (and_then
             (and_then
                (and_then (process_back_up cfg st ms meta data_for_alerting)
                   (\<lambda>st dfa. classify_metric fromtimestamp st open_fd open_fd (m_open_file_descriptors ms) meta
                      OpenFileDescriptorsIncreasedAboveThresholdAlert
                      OpenFileDescriptorsDecreasedBelowThresholdAlert dfa OPEN_FD_LIMITER_NAME))
                (\<lambda>st dfa. classify_metric fromtimestamp st storage storage (m_system_storage_usage ms) meta
                   SystemStorageUsageIncreasedAboveThresholdAlert
                   SystemStorageUsageDecreasedBelowThresholdAlert dfa STORAGE_USE_LIMITER_NAME))
             (\<lambda>st dfa. classify_metric fromtimestamp st cpu_use cpu_use (m_system_cpu_usage ms) meta
                SystemCPUUsageIncreasedAboveThresholdAlert
                SystemCPUUsageDecreasedBelowThresholdAlert dfa CPU_USE_LIMITER_NAME))
          (\<lambda>st dfa. classify_metric fromtimestamp st ram_use cpu_use (m_system_ram_usage ms) meta
             SystemRAMUsageIncreasedAboveThresholdAlert
             SystemRAMUsageDecreasedBelowThresholdAlert dfa RAM_USE_LIMITER_NAME))"

section \<open>Classification of one delivery\<close>

text \<open>\<open>str.split(sep)\<close> for a one-character separator.\<close>

fun split_on :: "char \<Rightarrow> string \<Rightarrow> string list" where
  "split_on c [] = [[]]"
| "split_on c (x # xs) =
     (if x = c then [] # split_on c xs
      else (case split_on c xs of [] \<Rightarrow> [[x]] | w # ws \<Rightarrow> (x # w) # ws))"

text \<open>
  The \<open>try\<close> block of \<open>_process_data\<close>, on the decoded body: \<open>data_for_alerting\<close> starts
  empty, and every exception raised inside the block is caught by the caller.
\<close>

definition classification ::
  "local_time \<Rightarrow> SystemAlertsConfig \<Rightarrow> alerter_state \<Rightarrow> string \<Rightarrow> incoming \<Rightarrow> outcome" where
  "classification fromtimestamp cfg st routing_key data_received =
     (if parent_id cfg \<in> set (split_on CHR ''.'' routing_key) then
        (case data_received of
           Result ms meta \<Rightarrow>
             process_results fromtimestamp cfg
               (create_state_for_system cfg st (system_id meta)) ms meta []
         | Error err \<Rightarrow>
             process_errors fromtimestamp cfg
               (create_state_for_system cfg st (system_id (meta_data err))) err []
         | Unexpected \<Rightarrow> (Some ReceivedUnexpectedDataException, [], st))
      else (Some ReceivedUnexpectedDataException, [], st))"

text \<open>
  A run of the alerter over successive deliveries (routing key and decoded body), with
  the alerts that classification appended, in order.
\<close>

fun run ::
  "local_time \<Rightarrow> SystemAlertsConfig \<Rightarrow> alerter_state \<times> alert list \<Rightarrow>
   (string \<times> incoming) list \<Rightarrow> alerter_state \<times> alert list" where
  "run fromtimestamp cfg (st, tr) [] = (st, tr)"
| "run fromtimestamp cfg (st, tr) ((rk, m) # ds) =
     (case classification fromtimestamp cfg st rk m of
        (e, dfa, st') \<Rightarrow> run fromtimestamp cfg (st', tr @ dfa) ds)"

section \<open>Reading alerts\<close>

fun alert_severity :: "alert \<Rightarrow> severity" where
  "alert_severity (MetricNotFoundErrorAlert m s t p i) = s"
| "alert_severity (InvalidUrlAlert m s t p i) = s"
| "alert_severity (SystemWentDownAtAlert n s t p i) = s"
| "alert_severity (SystemStillDownAlert n d s t p i) = s"
| "alert_severity (SystemBackUpAgainAlert n s t p i) = s"
| "alert_severity (OpenFileDescriptorsIncreasedAboveThresholdAlert n v s t ts p i) = s"
| "alert_severity (OpenFileDescriptorsDecreasedBelowThresholdAlert n v s t ts p i) = s"
| "alert_severity (SystemStorageUsageIncreasedAboveThresholdAlert n v s t ts p i) = s"
| "alert_severity (SystemStorageUsageDecreasedBelowThresholdAlert n v s t ts p i) = s"
| "alert_severity (SystemCPUUsageIncreasedAboveThresholdAlert n v s t ts p i) = s"
| "alert_severity (SystemCPUUsageDecreasedBelowThresholdAlert n v s t ts p i) = s"
| "alert_severity (SystemRAMUsageIncreasedAboveThresholdAlert n v s t ts p i) = s"
| "alert_severity (SystemRAMUsageDecreasedBelowThresholdAlert n v s t ts p i) = s"

fun alert_timestamp :: "alert \<Rightarrow> real" where
  "alert_timestamp (MetricNotFoundErrorAlert m s t p i) = t"
| "alert_timestamp (InvalidUrlAlert m s t p i) = t"
| "alert_timestamp (SystemWentDownAtAlert n s t p i) = t"
| "alert_timestamp (SystemStillDownAlert n d s t p i) = t"
| "alert_timestamp (SystemBackUpAgainAlert n s t p i) = t"
| "alert_timestamp (OpenFileDescriptorsIncreasedAboveThresholdAlert n v s t ts p i) = t"
| "alert_timestamp (OpenFileDescriptorsDecreasedBelowThresholdAlert n v s t ts p i) = t"
| "alert_timestamp (SystemStorageUsageIncreasedAboveThresholdAlert n v s t ts p i) = t"
| "alert_timestamp (SystemStorageUsageDecreasedBelowThresholdAlert n v s t ts p i) = t"
| "alert_timestamp (SystemCPUUsageIncreasedAboveThresholdAlert n v s t ts p i) = t"
| "alert_timestamp (SystemCPUUsageDecreasedBelowThresholdAlert n v s t ts p i) = t"
| "alert_timestamp (SystemRAMUsageIncreasedAboveThresholdAlert n v s t ts p i) = t"
| "alert_timestamp (SystemRAMUsageDecreasedBelowThresholdAlert n v s t ts p i) = t"

fun alert_origin_id :: "alert \<Rightarrow> string" where
  "alert_origin_id (MetricNotFoundErrorAlert m s t p i) = i"
| "alert_origin_id (InvalidUrlAlert m s t p i) = i"
| "alert_origin_id (SystemWentDownAtAlert n s t p i) = i"
| "alert_origin_id (SystemStillDownAlert n d s t p i) = i"
| "alert_origin_id (SystemBackUpAgainAlert n s t p i) = i"
| "alert_origin_id (OpenFileDescriptorsIncreasedAboveThresholdAlert n v s t ts p i) = i"
| "alert_origin_id (OpenFileDescriptorsDecreasedBelowThresholdAlert n v s t ts p i) = i"
| "alert_origin_id (SystemStorageUsageIncreasedAboveThresholdAlert n v s t ts p i) = i"
| "alert_origin_id (SystemStorageUsageDecreasedBelowThresholdAlert n v s t ts p i) = i"
| "alert_origin_id (SystemCPUUsageIncreasedAboveThresholdAlert n v s t ts p i) = i"
| "alert_origin_id (SystemCPUUsageDecreasedBelowThresholdAlert n v s t ts p i) = i"
| "alert_origin_id (SystemRAMUsageIncreasedAboveThresholdAlert n v s t ts p i) = i"
| "alert_origin_id (SystemRAMUsageDecreasedBelowThresholdAlert n v s t ts p i) = i"

text \<open>The metric an alert class belongs to, named by the metric's critical limiter.\<close>

fun alert_metric :: "alert \<Rightarrow> limiter_name option" where
  "alert_metric (MetricNotFoundErrorAlert m s t p i) = None"
| "alert_metric (InvalidUrlAlert m s t p i) = None"
| "alert_metric (SystemWentDownAtAlert n s t p i) = Some IS_DOWN_LIMITER_NAME"
| "alert_metric (SystemStillDownAlert n d s t p i) = Some IS_DOWN_LIMITER_NAME"
| "alert_metric (SystemBackUpAgainAlert n s t p i) = Some IS_DOWN_LIMITER_NAME"
| "alert_metric (OpenFileDescriptorsIncreasedAboveThresholdAlert n v s t ts p i) =
     Some OPEN_FD_LIMITER_NAME"
| "alert_metric (OpenFileDescriptorsDecreasedBelowThresholdAlert n v s t ts p i) =
     Some OPEN_FD_LIMITER_NAME"
| "alert_metric (SystemStorageUsageIncreasedAboveThresholdAlert n v s t ts p i) =
     Some STORAGE_USE_LIMITER_NAME"
| "alert_metric (SystemStorageUsageDecreasedBelowThresholdAlert n v s t ts p i) =
     Some STORAGE_USE_LIMITER_NAME"
| "alert_metric (SystemCPUUsageIncreasedAboveThresholdAlert n v s t ts p i) =
     Some CPU_USE_LIMITER_NAME"
| "alert_metric (SystemCPUUsageDecreasedBelowThresholdAlert n v s t ts p i) =
     Some CPU_USE_LIMITER_NAME"
| "alert_metric (SystemRAMUsageIncreasedAboveThresholdAlert n v s t ts p i) =
     Some RAM_USE_LIMITER_NAME"
| "alert_metric (SystemRAMUsageDecreasedBelowThresholdAlert n v s t ts p i) =
     Some RAM_USE_LIMITER_NAME"

text \<open>
  The alerts that go with a reset of a critical limiter: the back-up alert at \<open>INFO\<close>,
  and a decreased-below alert at \<open>INFO\<close> whose threshold severity is \<open>CRITICAL\<close>.
\<close>

fun resets_limiter :: "alert \<Rightarrow> bool" where
  "resets_limiter (SystemBackUpAgainAlert n s t p i) = (s = INFO)"
| "resets_limiter (OpenFileDescriptorsDecreasedBelowThresholdAlert n v s t ts p i) =
     (s = INFO \<and> ts = CRITICAL)"
| "resets_limiter (SystemStorageUsageDecreasedBelowThresholdAlert n v s t ts p i) =
     (s = INFO \<and> ts = CRITICAL)"
| "resets_limiter (SystemCPUUsageDecreasedBelowThresholdAlert n v s t ts p i) =
     (s = INFO \<and> ts = CRITICAL)"
| "resets_limiter (SystemRAMUsageDecreasedBelowThresholdAlert n v s t ts p i) =
     (s = INFO \<and> ts = CRITICAL)"
| "resets_limiter a = False"

fun is_back_up :: "alert \<Rightarrow> bool" where
  "is_back_up (SystemBackUpAgainAlert n s t p i) = True"
| "is_back_up a = False"



text \<open>
  A pair of threshold alert classes of the metric \<open>n\<close>: each keeps the arguments it is
  built from, the first class never goes with a reset, the second does at \<open>INFO\<close> with
  threshold severity \<open>CRITICAL\<close>.
\<close>

definition threshold_pair :: "limiter_name \<Rightarrow> threshold_alert \<Rightarrow> threshold_alert \<Rightarrow> bool" where
  "threshold_pair n inc dec =
     (n \<noteq> IS_DOWN_LIMITER_NAME \<and>
      (\<forall>nm v s t ts p i.
         alert_severity (inc nm v s t ts p i) = s \<and> alert_severity (dec nm v s t ts p i) = s \<and>
         alert_timestamp (inc nm v s t ts p i) = t \<and> alert_timestamp (dec nm v s t ts p i) = t \<and>
         alert_origin_id (inc nm v s t ts p i) = i \<and> alert_origin_id (dec nm v s t ts p i) = i \<and>
         alert_metric (inc nm v s t ts p i) = Some n \<and> alert_metric (dec nm v s t ts p i) = Some n \<and>
         \<not> resets_limiter (inc nm v s t ts p i) \<and>
         resets_limiter (dec nm v s t ts p i) = (s = INFO \<and> ts = CRITICAL) \<and>
         \<not> is_back_up (inc nm v s t ts p i) \<and> \<not> is_back_up (dec nm v s t ts p i)))"

section \<open>What a run is checked against\<close>






text \<open>
  The elementary steps of classification on \<open>data_for_alerting\<close> and the state: the
  state of a system is created; an alert is appended that leaves the state alone; a
  critical threshold alert is appended and its limiter recorded at the local instant of
  the alert's timestamp, the limiter permitting;
  a decrease from critical is appended and its limiter reset; the three downtime steps.
\<close>

inductive micro ::
  "local_time \<Rightarrow> SystemAlertsConfig \<Rightarrow> alert list \<times> alerter_state \<Rightarrow>
   alert list \<times> alerter_state \<Rightarrow> bool"
  for tz :: local_time and cfg :: SystemAlertsConfig where
  create: "micro tz cfg (d, s) (d, create_state_for_system cfg s i)"
| metric_not_found: "micro tz cfg (d, s) (d @ [MetricNotFoundErrorAlert m ERROR t p i], s)"
| invalid_url: "micro tz cfg (d, s) (d @ [InvalidUrlAlert m ERROR t p i], s)"
| warning_increase:
    "threshold_pair n inc dec \<Longrightarrow>
     micro tz cfg (d, s) (d @ [inc nm v WARNING t WARNING p i], s)"
| warning_decrease:
    "threshold_pair n inc dec \<Longrightarrow> micro tz cfg (d, s) (d @ [dec nm v INFO t WARNING p i], s)"
| critical_increase:
    "threshold_pair n inc dec \<Longrightarrow> system_critical_timed_task_limiters s i = Some ls \<Longrightarrow>
     tz t = Inr lt \<Longrightarrow> can_do_task (ls n) lt \<Longrightarrow>
     micro tz cfg (d, s)
       (d @ [inc nm v CRITICAL t CRITICAL p i],
        set_limiter s i n (set_last_time_that_did_task (ls n) lt))"
| critical_decrease:
    "threshold_pair n inc dec \<Longrightarrow> system_critical_timed_task_limiters s i = Some ls \<Longrightarrow>
     micro tz cfg (d, s)
       (d @ [dec nm v INFO t CRITICAL p i], set_limiter s i n (reset (ls n)))"
| went_down:
    "system_initial_downtime_alert_sent s i = Some False \<Longrightarrow>
     system_critical_timed_task_limiters s i = Some ls \<Longrightarrow>
     sev = CRITICAL \<or> sev = WARNING \<Longrightarrow> tz t = Inr lt \<Longrightarrow>
     micro tz cfg (d, s)
       (d @ [SystemWentDownAtAlert nm sev t p i],
        set_initial_downtime_alert_sent
          (set_limiter s i IS_DOWN_LIMITER_NAME
             (set_last_time_that_did_task (ls IS_DOWN_LIMITER_NAME) lt)) i True)"
| still_down:
    "system_initial_downtime_alert_sent s i = Some True \<Longrightarrow>
     system_critical_timed_task_limiters s i = Some ls \<Longrightarrow>
     tz t = Inr lt \<Longrightarrow> can_do_task (ls IS_DOWN_LIMITER_NAME) lt \<Longrightarrow>
     micro tz cfg (d, s)
       (d @ [SystemStillDownAlert nm dt CRITICAL t p i],
        set_limiter s i IS_DOWN_LIMITER_NAME
          (set_last_time_that_did_task (ls IS_DOWN_LIMITER_NAME) lt))"
| back_up:
    "system_critical_timed_task_limiters s i = Some ls \<Longrightarrow>
     micro tz cfg (d, s)
       (d @ [SystemBackUpAgainAlert nm INFO t p i],
        set_limiter (set_initial_downtime_alert_sent s i False) i IS_DOWN_LIMITER_NAME
          (reset (ls IS_DOWN_LIMITER_NAME)))"

section \<open>Consuming a delivery\<close>

datatype exchange = ALERT_EXCHANGE | HEALTH_CHECK_EXCHANGE

text \<open>
  What the broker answers to a publish with confirmation: the message was confirmed, it
  was not delivered (\<open>MessageWasNotDeliveredException\<close>), or the call failed with some
  other exception.
\<close>

datatype publish_result = Confirmed | NotDelivered | Failed

record queue_item =
  item_exchange :: exchange
  item_routing_key :: string
  item_data :: alert

datatype event =
    BasicAck nat
  | BasicPublish queue_item publish_result
  | SendHeartbeat string real publish_result

record delivery =
  routing_key :: string
  delivery_tag :: nat
  body :: "incoming option"

text \<open>
  The broker as one delivery sees it: whether \<open>basic_ack\<close> succeeds, the answers to the
  successive publishes of the drain (\<open>Confirmed\<close> once the list is used up), the answer
  to the heartbeat, and the clock read for the heartbeat.
\<close>

record broker =
  ack_succeeds :: bool
  publish_results :: "publish_result list"
  heartbeat_result :: publish_result
  clock :: real

record alerter =
  alerter_name :: string
  alerts_configs :: SystemAlertsConfig
  alerter_st :: alerter_state
  publishing_queue :: "queue_item list"
  publishing_queue_maxsize :: int

text \<open>\<open>queue.Queue.full()\<close>: a queue of maximal size 0 or less is unbounded.\<close>

definition full :: "int \<Rightarrow> queue_item list \<Rightarrow> bool" where
  "full maxsize q = (0 < maxsize \<and> maxsize \<le> int (length q))"

text \<open>\<open>_place_latest_data_on_queue\<close>: when the queue is full the oldest item is dropped.\<close>

fun place_latest_data_on_queue ::
  "int \<Rightarrow> queue_item list \<Rightarrow> alert list \<Rightarrow> queue_item list" where
  "place_latest_data_on_queue maxsize q [] = q"
| "place_latest_data_on_queue maxsize q (a # data_list) =
     place_latest_data_on_queue maxsize
       ((if full maxsize q then tl q else q) @
          [\<lparr>item_exchange = ALERT_EXCHANGE, item_routing_key = ''alert_router.system'',
            item_data = a\<rparr>])
       data_list"

definition next_result :: "publish_result list \<Rightarrow> publish_result" where
  "next_result rs = (case rs of [] \<Rightarrow> Confirmed | r # _ \<Rightarrow> r)"

text \<open>
  Modelled from the spec: \<open>_send_data\<close> of the base class \<open>Alerter\<close> is not among the
  sources. The specification's \<open>drain()\<close> attempts a publish with confirmation of each
  record in order; a confirmed record is removed, a record that was not delivered stays
  at the head and ends the drain with the not-delivered failure, as any other failure
  of the publish does with its own exception.
\<close>

fun send_data ::
  "publish_result list \<Rightarrow> queue_item list \<Rightarrow> error option \<times> event list \<times> queue_item list" where
  "send_data rs [] = (None, [], [])"
| "send_data rs (x # q) =
     (case next_result rs of
        Confirmed \<Rightarrow>
          (case send_data (tl rs) q of (e, evs, q') \<Rightarrow> (e, BasicPublish x Confirmed # evs, q'))
      | NotDelivered \<Rightarrow>
          (Some MessageWasNotDeliveredException, [BasicPublish x NotDelivered], x # q)
      | Failed \<Rightarrow> (Some OtherException, [BasicPublish x Failed], x # q))"

text \<open>
  Modelled from the spec: \<open>_send_heartbeat\<close> of the base class \<open>Alerter\<close> is not among
  the sources. It publishes \<open>{component_name, timestamp}\<close> with confirmation and raises
  what the publish raises.
\<close>

definition send_heartbeat ::
  "publish_result \<Rightarrow> string \<Rightarrow> real \<Rightarrow> error option \<times> event list" where
  "send_heartbeat r name ts =
     (case r of
        Confirmed \<Rightarrow> (None, [SendHeartbeat name ts Confirmed])
      | NotDelivered \<Rightarrow>
          (Some MessageWasNotDeliveredException, [SendHeartbeat name ts NotDelivered])
      | Failed \<Rightarrow> (Some OtherException, [SendHeartbeat name ts Failed]))"

text \<open>
  \<open>_process_data\<close>. A body that \<open>json.loads\<close> rejects raises before the \<open>try\<close> block.
  The result is the exception that leaves the function, if any, the broker calls in
  order, and the alerter.
\<close>

definition process_data ::
  "local_time \<Rightarrow> broker \<Rightarrow> alerter \<Rightarrow> delivery \<Rightarrow> error option \<times> event list \<times> alerter"
  where
  "process_data fromtimestamp env a d =
    (case body d of
       None \<Rightarrow> (Some OtherException, [], a)
     | Some data_received \<Rightarrow>
       (case classification fromtimestamp (alerts_configs a) (alerter_st a) (routing_key d)
               data_received of
          (exc, data_for_alerting, st') \<Rightarrow>
            (let processing_error = (exc \<noteq> None);
                 a1 = a\<lparr>alerter_st := st'\<rparr>
             in if \<not> ack_succeeds env then
                  (Some OtherException, [BasicAck (delivery_tag d)], a1)
                else
                  (let a2 = (if \<not> processing_error
                             then a1\<lparr>publishing_queue :=
                                       place_latest_data_on_queue (publishing_queue_maxsize a1)
                                         (publishing_queue a1) data_for_alerting\<rparr>
                             else a1)
                   in case send_data (publish_results env) (publishing_queue a2) of
                        (sent, evs, q') \<Rightarrow>
                          (let a3 = a2\<lparr>publishing_queue := q'\<rparr>;
                               tried =
                                 (case sent of
                                    Some e \<Rightarrow> (Some e, evs)
                                  | None \<Rightarrow>
                                    if \<not> processing_error then
                                      (case send_heartbeat (heartbeat_result env)
                                              (alerter_name a3) (clock env) of
                                         (h, hevs) \<Rightarrow> (h, evs @ hevs))
                                    else (None, evs))
                           in case tried of
                                (Some e, evs') \<Rightarrow>
                                  if e = MessageWasNotDeliveredException
                                  then (None, BasicAck (delivery_tag d) # evs', a3)
                                  else (Some e, BasicAck (delivery_tag d) # evs', a3)
                              | (None, evs') \<Rightarrow>
                                  (None, BasicAck (delivery_tag d) # evs', a3))))))"

fun is_ack :: "event \<Rightarrow> bool" where
  "is_ack (BasicAck t) = True"
| "is_ack e = False"

fun is_heartbeat :: "event \<Rightarrow> bool" where
  "is_heartbeat (SendHeartbeat n t r) = True"
| "is_heartbeat e = False"

fun is_publish :: "event \<Rightarrow> bool" where
  "is_publish (BasicPublish x r) = True"
| "is_publish e = False"

section \<open>The prefetch count\<close>

text \<open>
  Python 3's \<open>round\<close> of a float: the nearest integer, a tie going to the even one.
\<close>

definition py_round :: "real \<Rightarrow> int" where
  "py_round x =
     (let f = \<lfloor>x\<rfloor>; d = x - of_int f
      in if d < 1 / 2 then f else if 1 / 2 < d then f + 1 else if even f then f else f + 1)"

text \<open>
  Rounding a real to double precision: for \<open>2^e \<le> |x| < 2^(e+1)\<close> the doubles are the
  multiples of \<open>2^(e-52)\<close>, and the nearest one is taken, a tie going to the even
  multiple. Numbers below the normal range do not occur as quotients of integers by 5.
\<close>

definition round_to_double :: "real \<Rightarrow> real" where
  "round_to_double x =
     (if x = 0 then 0
      else (let ulp = 2 powr (real_of_int \<lfloor>log 2 \<bar>x\<bar>\<rfloor> - 52)
            in real_of_int (py_round (x / ulp)) * ulp))"

text \<open>
  \<open>a / b\<close> on Python integers: the exact quotient rounded to a double, an
  \<open>OverflowError\<close> when that is beyond the largest double. The divisor is not zero here.
\<close>

definition int_true_div :: "int \<Rightarrow> int \<Rightarrow> error + real" where
  "int_true_div a b =
     (let q = round_to_double (real_of_int a / real_of_int b)
      in if 2 ^ 1024 \<le> \<bar>q\<bar> then Inl OverflowError else Inr q)"

text \<open>\<open>prefetch_count = round(self.publishing_queue.maxsize / 5)\<close>.\<close>

definition prefetch_count :: "int \<Rightarrow> error + int" where
  "prefetch_count maxsize =
     (case int_true_div maxsize 5 of Inl e \<Rightarrow> Inl e | Inr q \<Rightarrow> Inr (py_round q))"

section \<open>The data transformers manager\<close>

text \<open>
  \<open>transformer_process_dict\<close> in insertion order: the name of each child and whether its
  process is alive. Assigning to a key keeps its place; a new key goes to the end.
\<close>

type_synonym process_dict = "(string \<times> bool) list"

fun dict_set :: "string \<Rightarrow> bool \<Rightarrow> process_dict \<Rightarrow> process_dict" where
  "dict_set k v [] = [(k, v)]"
| "dict_set k v ((k', v') # d) = (if k = k' then (k, v) # d else (k', v') # dict_set k v d)"

record heartbeat =
  component_name :: string
  running_processes :: "string list"
  dead_processes :: "string list"
  timestamp :: real

datatype manager_event =
    Join string
  | Start string
  | PublishHeartbeat exchange string heartbeat publish_result

text \<open>The loop of \<open>_process_ping\<close> over the children: running names, dead names, joins.\<close>

fun poll_processes :: "process_dict \<Rightarrow> string list \<times> string list \<times> manager_event list" where
  "poll_processes [] = ([], [], [])"
| "poll_processes ((transformer_name, is_alive) # d) =
     (case poll_processes d of
        (running, dead, evs) \<Rightarrow>
          if is_alive then (transformer_name # running, dead, evs)
          else (running, transformer_name # dead, Join transformer_name # evs))"

text \<open>
  Starting one transformer if it is absent or not alive. \<open>can_start\<close> says whether
  creating and starting the process succeeds; a failure raises.
\<close>

definition start_if_missing ::
  "(string \<Rightarrow> bool) \<Rightarrow> string \<Rightarrow> process_dict \<Rightarrow> error option \<times> manager_event list \<times> process_dict"
  where
  "start_if_missing can_start name d =
     (if map_of d name \<noteq> Some True then
        (if can_start name then (None, [Start name], dict_set name True d)
         else (Some OtherException, [], d))
      else (None, [], d))"

text \<open>
  \<open>_start_transformers_processes\<close>, with the two names of \<open>src/utils/constants.py\<close> as
  parameters: first the system data transformer, then the GitHub one.
\<close>

definition start_transformers_processes ::
  "(string \<Rightarrow> bool) \<Rightarrow> string \<Rightarrow> string \<Rightarrow> process_dict \<Rightarrow>
   error option \<times> manager_event list \<times> process_dict" where
  "start_transformers_processes can_start SYSTEM_DATA_TRANSFORMER_NAME
       GITHUB_DATA_TRANSFORMER_NAME d =
     (case start_if_missing can_start SYSTEM_DATA_TRANSFORMER_NAME d of
        (Some e, evs, d1) \<Rightarrow> (Some e, evs, d1)
      | (None, evs, d1) \<Rightarrow>
          (case start_if_missing can_start GITHUB_DATA_TRANSFORMER_NAME d1 of
             (e, evs', d2) \<Rightarrow> (e, evs @ evs', d2)))"

record manager_env =
  can_start :: "string \<Rightarrow> bool"
  heartbeat_delivery :: publish_result
  manager_clock :: real

text \<open>
  \<open>_process_ping\<close>: the heartbeat is composed, dead children are restarted, and the
  heartbeat is published. An exception while composing or restarting is logged and the
  function returns without a heartbeat; of the exceptions of the publish only
  \<open>MessageWasNotDeliveredException\<close> is swallowed.
\<close>

definition process_ping ::
  "manager_env \<Rightarrow> string \<Rightarrow> string \<Rightarrow> string \<Rightarrow> process_dict \<Rightarrow>
   error option \<times> manager_event list \<times> process_dict" where
  "process_ping env name SYSTEM_DATA_TRANSFORMER_NAME GITHUB_DATA_TRANSFORMER_NAME d =
     (case poll_processes d of
        (running, dead, joins) \<Rightarrow>
          (let hb = \<lparr>component_name = name, running_processes = running,
                     dead_processes = dead, timestamp = manager_clock env\<rparr>
           in case (if length dead \<noteq> 0
                    then start_transformers_processes (can_start env)
                           SYSTEM_DATA_TRANSFORMER_NAME GITHUB_DATA_TRANSFORMER_NAME d
                    else (None, [], d)) of
                (Some e, starts, d') \<Rightarrow> (None, joins @ starts, d')
              | (None, starts, d') \<Rightarrow>
                  (case heartbeat_delivery env of
                     Failed \<Rightarrow>
                       (Some OtherException,
                        joins @ starts @
                          [PublishHeartbeat HEALTH_CHECK_EXCHANGE ''heartbeat.manager'' hb Failed],
                        d')
                   | r \<Rightarrow>
                       (None,
                        joins @ starts @
                          [PublishHeartbeat HEALTH_CHECK_EXCHANGE ''heartbeat.manager'' hb r],
                        d'))))"

fun published_heartbeat :: "manager_event list \<Rightarrow> heartbeat option" where
  "published_heartbeat [] = None"
| "published_heartbeat (PublishHeartbeat x k hb r # evs) = Some hb"
| "published_heartbeat (e # evs) = published_heartbeat evs"

section \<open>Example values\<close>

text \<open>
  The conversion of a host on UTC: the timestamp is rounded to microseconds, a tie going
  to the even one, and the years 1 to 9999 convert, to themselves; beyond them the
  example raises \<open>ValueError\<close>. Then the configuration of the specification's literal scenarios: CPU with thresholds 70
  and 90 and a repeat of 600 seconds, downtime with thresholds 10 and 20 and a repeat of
  300 seconds; the RAM thresholds are 80 and 95.
\<close>

definition utc_fromtimestamp :: local_time where
  "utc_fromtimestamp t =
     (let us = py_round (t * 1000000)
      in if - 62135596800000000 \<le> us \<and> us < 253402300800000000
         then Inr (real_of_int us / 1000000) else Inl ValueError)"

definition ex_cpu_spec :: threshold_spec where
  "ex_cpu_spec = \<lparr>enabled = True, warning_enabled = True, critical_enabled = True,
                   warning_threshold = Some 70, critical_threshold = Some 90,
                   critical_repeat = 600\<rparr>"

definition ex_ram_spec :: threshold_spec where
  "ex_ram_spec = \<lparr>enabled = True, warning_enabled = True, critical_enabled = True,
                   warning_threshold = Some 80, critical_threshold = Some 95,
                   critical_repeat = 600\<rparr>"

definition ex_is_down_spec :: threshold_spec where
  "ex_is_down_spec = \<lparr>enabled = True, warning_enabled = True, critical_enabled = True,
                       warning_threshold = Some 10, critical_threshold = Some 20,
                       critical_repeat = 300\<rparr>"

definition ex_config :: SystemAlertsConfig where
  "ex_config = \<lparr>parent_id = ''chain_1'', open_file_descriptors = ex_cpu_spec,
                 system_cpu_usage = ex_cpu_spec, system_storage_usage = ex_cpu_spec,
                 system_ram_usage = ex_ram_spec, system_is_down = ex_is_down_spec\<rparr>"

definition ex_meta :: "real \<Rightarrow> result_meta" where
  "ex_meta t = \<lparr>system_id = ''system_1'', system_parent_id = ''chain_1'',
                 system_name = ''node_1'', last_monitored = t\<rparr>"

definition ex_error_meta :: "real \<Rightarrow> error_meta" where
  "ex_error_meta t = \<lparr>system_id = ''system_1'', system_parent_id = ''chain_1'',
                       system_name = ''node_1'', time = t\<rparr>"

definition ex_limiters :: "limiter_name \<Rightarrow> TimedTaskLimiter" where
  "ex_limiters n = new_TimedTaskLimiter (real_of_int (critical_repeat (config_of ex_config n)))"

definition ex_state :: alerter_state where
  "ex_state = \<lparr>system_initial_downtime_alert_sent = [''system_1'' \<mapsto> False],
                system_critical_timed_task_limiters = [''system_1'' \<mapsto> ex_limiters]\<rparr>"

definition no_sample :: sample where
  "no_sample = \<lparr>current = None, previous = None\<rparr>"

definition cpu_metrics :: "real \<Rightarrow> real \<Rightarrow> metrics" where
  "cpu_metrics prev cur =
     \<lparr>went_down_at = no_sample, m_open_file_descriptors = no_sample,
      m_system_storage_usage = no_sample,
      m_system_cpu_usage = \<lparr>current = Some cur, previous = Some prev\<rparr>,
      m_system_ram_usage = no_sample\<rparr>"

definition cpu_result :: "real \<Rightarrow> real \<Rightarrow> real \<Rightarrow> incoming" where
  "cpu_result prev cur t = Result (cpu_metrics prev cur) (ex_meta t)"

definition ram_metrics :: "real \<Rightarrow> real \<Rightarrow> metrics" where
  "ram_metrics prev cur =
     \<lparr>went_down_at = no_sample, m_open_file_descriptors = no_sample,
      m_system_storage_usage = no_sample, m_system_cpu_usage = no_sample,
      m_system_ram_usage = \<lparr>current = Some cur, previous = Some prev\<rparr>\<rparr>"

definition back_up_metrics :: metrics where
  "back_up_metrics =
     \<lparr>went_down_at = \<lparr>current = None, previous = Some 1700000000\<rparr>,
      m_open_file_descriptors = no_sample, m_system_storage_usage = no_sample,
      m_system_cpu_usage = no_sample, m_system_ram_usage = no_sample\<rparr>"

definition down_error :: "real \<Rightarrow> error_data" where
  "down_error t =
     \<lparr>code = 5004, message = ''unreachable'', meta_data = ex_error_meta t,
      data_went_down_at = \<lparr>current = Some 1700000000, previous = None\<rparr>\<rparr>"

text \<open>The state after the specification's scenario 5: the system is down.\<close>

definition ex_down_state :: alerter_state where
  "ex_down_state =
     set_initial_downtime_alert_sent
       (set_limiter ex_state ''system_1'' IS_DOWN_LIMITER_NAME
          (set_last_time_that_did_task (ex_limiters IS_DOWN_LIMITER_NAME) 1700000030))
       ''system_1'' True"

text \<open>An alerter with one alert waiting in its publishing queue, and two deliveries.\<close>

definition ex_item :: queue_item where
  "ex_item = \<lparr>item_exchange = ALERT_EXCHANGE, item_routing_key = ''alert_router.system'',
               item_data = InvalidUrlAlert ''bad url'' ERROR 1699999999 ''chain_1''
                             ''system_1''\<rparr>"

definition ex_alerter :: alerter where
  "ex_alerter = \<lparr>alerter_name = ''system_alerter'', alerts_configs = ex_config,
                  alerter_st = ex_state, publishing_queue = [ex_item],
                  publishing_queue_maxsize = 10\<rparr>"

definition ex_broker :: broker where
  "ex_broker = \<lparr>ack_succeeds = True, publish_results = [], heartbeat_result = Confirmed,
                 clock = 1700000051\<rparr>"

definition ex_bad_delivery :: delivery where
  "ex_bad_delivery = \<lparr>routing_key = ''alerter.system.chain_1'', delivery_tag = 7,
                       body = Some Unexpected\<rparr>"

definition ex_good_delivery :: delivery where
  "ex_good_delivery = \<lparr>routing_key = ''alerter.system.chain_1'', delivery_tag = 8,
                        body = Some (cpu_result 85 95 1700000050)\<rparr>"

text \<open>A manager whose GitHub transformer has died.\<close>

definition ex_dict :: process_dict where
  "ex_dict = [(''System Data Transformer'', True), (''GitHub Data Transformer'', False)]"

definition ex_manager_env :: manager_env where
  "ex_manager_env = \<lparr>can_start = (\<lambda>n. True), heartbeat_delivery = Confirmed,
                      manager_clock = 1700000000\<rparr>"

definition ex_run :: "(string \<times> incoming) list" where
  "ex_run = [(''alerter.system.chain_1'', cpu_result 85 95 1700000050),
             (''alerter.system.chain_1'', cpu_result 95 96 1700000100),
             (''alerter.system.chain_1'', cpu_result 96 97 1700000700)]"

section \<open>Basic facts\<close>

lemma py_simps [simp]:
  "py_le (Some x) (Some y) = Inr (x \<le> y)"
  "py_lt (Some x) (Some y) = Inr (x < y)"
  "py_le None b = Inl TypeError"
  "py_lt None b = Inl TypeError"
  "py_le (Some x) None = Inl TypeError"
  "py_lt (Some x) None = Inl TypeError"
  "py_and (Inr True) r = r"
  "py_and (Inr False) r = Inr False"
  "py_and (Inl e) r = Inl e"
  "py_not (Inr q) = Inr (\<not> q)"
  "py_not (Inl e) = Inl e"
  by (simp_all add: py_le_def py_lt_def py_and_def py_not_def)

lemma py_and_Inr: "py_and (Inr x) (Inr y) = Inr (x \<and> y)"
  by (simp add: py_and_def)

lemma py_round_of_int: "py_round (real_of_int n) = n"
  by (simp add: py_round_def)

lemma utc_fromtimestamp_of_int:
  "utc_fromtimestamp (real_of_int n) =
     (if - 62135596800 \<le> n \<and> n < 253402300800 then Inr (real_of_int n) else Inl ValueError)"
proof -
  have "py_round (real_of_int n * 1000000) = n * 1000000"
    using py_round_of_int [of "n * 1000000"] by simp
  then show ?thesis by (simp add: utc_fromtimestamp_def)
qed

lemma utc_fromtimestamp_numeral:
  "utc_fromtimestamp (numeral k) =
     (if (numeral k :: int) < 253402300800 then Inr (numeral k) else Inl ValueError)"
  using utc_fromtimestamp_of_int [of "numeral k"] by simp

lemmas ex_defs = utc_fromtimestamp_numeral ex_cpu_spec_def ex_ram_spec_def ex_is_down_spec_def ex_config_def ex_meta_def
  ex_error_meta_def ex_limiters_def ex_state_def no_sample_def cpu_metrics_def cpu_result_def ram_metrics_def
  back_up_metrics_def down_error_def ex_run_def ex_down_state_def ex_item_def ex_alerter_def
  ex_broker_def ex_bad_delivery_def ex_good_delivery_def ex_dict_def ex_manager_env_def

section \<open>Classification as a sequence of elementary steps\<close>

lemma warning_block_cases:
  assumes "warning_block cur prev config meta inc dec dfa = (e, d)"
  shows "d = dfa \<or>
         (e = None \<and> d = dfa @ [inc (system_name meta) cur WARNING (last_monitored meta) WARNING
                       (system_parent_id meta) (system_id meta)]) \<or>
         (e = None \<and> d = dfa @ [dec (system_name meta) cur INFO (last_monitored meta) WARNING
                       (system_parent_id meta) (system_id meta)])"
  using assms unfolding warning_block_def Let_def
  by (simp split: if_splits sum.splits)

lemma critical_block_cases:
  assumes "critical_block tz st l cur prev config meta inc dec d n = (e, d', st')"
  shows "(d' = d \<and> st' = st) \<or>
         (\<exists>lt. e = None \<and> tz (last_monitored meta) = Inr lt \<and> can_do_task l lt \<and>
          d' = d @ [inc (system_name meta) cur CRITICAL (last_monitored meta) CRITICAL
                      (system_parent_id meta) (system_id meta)] \<and>
          st' = set_limiter st (system_id meta) n (set_last_time_that_did_task l lt)) \<or>
         (e = None \<and>
          d' = d @ [dec (system_name meta) cur INFO (last_monitored meta) CRITICAL
                      (system_parent_id meta) (system_id meta)] \<and>
          st' = set_limiter st (system_id meta) n (reset l))"
proof (cases "tz (last_monitored meta)")
  case (Inl x)
  with assms show ?thesis
    unfolding critical_block_def Let_def by (simp split: if_splits)
next
  case (Inr lt)
  note conv = Inr
  show ?thesis
  proof (cases "py_le (critical_threshold config) (Some cur)")
    case (Inl x)
    with assms conv show ?thesis
      unfolding critical_block_def Let_def by (simp split: if_splits)
  next
    case (Inr b)
    with assms conv show ?thesis
      unfolding critical_block_def Let_def
      by (cases b; simp add: py_and_Inr split: if_splits sum.splits)
  qed
qed






lemma threshold_pairs:
  "threshold_pair OPEN_FD_LIMITER_NAME OpenFileDescriptorsIncreasedAboveThresholdAlert
     OpenFileDescriptorsDecreasedBelowThresholdAlert"
  "threshold_pair STORAGE_USE_LIMITER_NAME SystemStorageUsageIncreasedAboveThresholdAlert
     SystemStorageUsageDecreasedBelowThresholdAlert"
  "threshold_pair CPU_USE_LIMITER_NAME SystemCPUUsageIncreasedAboveThresholdAlert
     SystemCPUUsageDecreasedBelowThresholdAlert"
  "threshold_pair RAM_USE_LIMITER_NAME SystemRAMUsageIncreasedAboveThresholdAlert
     SystemRAMUsageDecreasedBelowThresholdAlert"
  by (simp_all add: threshold_pair_def)



section \<open>Metric classification: the four transitions\<close>

text \<open>
  C1. With numeric thresholds \<open>w\<close> and \<open>c\<close>, a numeric previous sample \<open>p\<close>, the
  limiters of the system in place and, when criticals are enabled, a \<open>last_monitored\<close>
  that converts to the local instant \<open>lt\<close>, \<open>_classify_alert\<close> raises nothing and
  appends, in this order: the increased-above alert at \<open>WARNING\<close> iff warnings are
  enabled and \<open>w \<le> cur < c\<close> and not \<open>w \<le> p\<close>; the decreased-below alert (\<open>INFO\<close>,
  threshold severity \<open>WARNING\<close>) iff warnings are enabled and \<open>cur < w \<le> p\<close>; the
  increased-above alert at \<open>CRITICAL\<close> iff criticals are enabled, \<open>c \<le> cur\<close> and the
  limiter permits at \<open>lt\<close>, and then the limiter is recorded at \<open>lt\<close>; the
  decreased-below alert (\<open>INFO\<close>, threshold severity \<open>CRITICAL\<close>) iff criticals are
  enabled and \<open>w < cur < c \<le> p\<close>, and then the limiter is reset. Otherwise the state is
  unchanged. The order \<open>w < c\<close> of the thresholds is not needed.
\<close>

theorem classify_alert_numeric:
  assumes "system_critical_timed_task_limiters st (system_id meta) = Some ls"
      and "warning_threshold config = Some w"
      and "critical_threshold config = Some c"
      and "critical_enabled config \<Longrightarrow> tz (last_monitored meta) = Inr lt"
  shows "classify_alert tz st cur (Some p) config meta inc dec dfa n =
     (None,
      dfa
      @ (if warning_enabled config \<and> w \<le> cur \<and> cur < c \<and> \<not> w \<le> p
         then [inc (system_name meta) cur WARNING (last_monitored meta) WARNING
                 (system_parent_id meta) (system_id meta)] else [])
      @ (if warning_enabled config \<and> cur < w \<and> w \<le> p
         then [dec (system_name meta) cur INFO (last_monitored meta) WARNING
                 (system_parent_id meta) (system_id meta)] else [])
      @ (if critical_enabled config \<and> c \<le> cur \<and> can_do_task (ls n) lt
         then [inc (system_name meta) cur CRITICAL (last_monitored meta) CRITICAL
                 (system_parent_id meta) (system_id meta)] else [])
      @ (if critical_enabled config \<and> w < cur \<and> cur < c \<and> c \<le> p
         then [dec (system_name meta) cur INFO (last_monitored meta) CRITICAL
                 (system_parent_id meta) (system_id meta)] else []),
      if critical_enabled config \<and> c \<le> cur \<and> can_do_task (ls n) lt
      then set_limiter st (system_id meta) n (set_last_time_that_did_task (ls n) lt)
      else if critical_enabled config \<and> w < cur \<and> cur < c \<and> c \<le> p
      then set_limiter st (system_id meta) n (reset (ls n))
      else st)"
proof (cases "critical_enabled config")
  case True
  with assms(4) have "tz (last_monitored meta) = Inr lt" by simp
  with True assms(1-3) show ?thesis
    by (simp add: classify_alert_def warning_block_def critical_block_def py_and_Inr Let_def)
next
  case False
  with assms(1-3) show ?thesis
    by (simp add: classify_alert_def warning_block_def critical_block_def py_and_Inr Let_def)
qed

theorem classify_alert_numeric_witness:
  "system_critical_timed_task_limiters ex_state (system_id (ex_meta 1700000000)) =
     Some ex_limiters \<and>
   warning_threshold ex_cpu_spec = Some 70 \<and> critical_threshold ex_cpu_spec = Some 90 \<and>
   critical_enabled ex_cpu_spec \<and>
   utc_fromtimestamp (last_monitored (ex_meta 1700000000)) = Inr 1700000000 \<and>
   classify_alert utc_fromtimestamp ex_state 85 (Some 60) ex_cpu_spec (ex_meta 1700000000)
     SystemCPUUsageIncreasedAboveThresholdAlert SystemCPUUsageDecreasedBelowThresholdAlert []
     CPU_USE_LIMITER_NAME =
   (None,
    [SystemCPUUsageIncreasedAboveThresholdAlert ''node_1'' 85 WARNING 1700000000 WARNING
       ''chain_1'' ''system_1''],
    ex_state)"
proof -
  have h1: "system_critical_timed_task_limiters ex_state (system_id (ex_meta 1700000000)) =
      Some ex_limiters"
    by (simp add: ex_state_def ex_meta_def)
  have h2: "warning_threshold ex_cpu_spec = Some 70" by (simp add: ex_cpu_spec_def)
  have h3: "critical_threshold ex_cpu_spec = Some 90" by (simp add: ex_cpu_spec_def)
  have h4: "critical_enabled ex_cpu_spec" by (simp add: ex_cpu_spec_def)
  have h5: "utc_fromtimestamp (last_monitored (ex_meta 1700000000)) = Inr 1700000000"
    by (simp add: utc_fromtimestamp_numeral ex_meta_def)
  show ?thesis
    using h1 h2 h3 h4 h5
      classify_alert_numeric [where tz = utc_fromtimestamp, OF h1 h2 h3 h5, of 85 60
        SystemCPUUsageIncreasedAboveThresholdAlert
        SystemCPUUsageDecreasedBelowThresholdAlert "[]" CPU_USE_LIMITER_NAME]
    by (simp add: ex_cpu_spec_def ex_meta_def)
qed

text \<open>
  C10. When the previous sample is below the warning threshold and the current one at
  or above the critical threshold, with both severities enabled, \<open>last_monitored\<close>
  converting to the local instant \<open>lt\<close> and the limiter permitting at \<open>lt\<close>,
  \<open>_classify_alert\<close> appends exactly one alert, the increased-above alert at
  \<open>CRITICAL\<close>, and records the limiter at \<open>lt\<close>; no \<open>WARNING\<close> alert goes with it.
\<close>

theorem critical_edge_single_alert:
  assumes "system_critical_timed_task_limiters st (system_id meta) = Some ls"
      and "warning_threshold config = Some w"
      and "critical_threshold config = Some c"
      and "warning_enabled config" and "critical_enabled config"
      and "p < w" and "c \<le> cur"
      and "tz (last_monitored meta) = Inr lt"
      and "can_do_task (ls n) lt"
  shows "classify_alert tz st cur (Some p) config meta inc dec dfa n =
     (None,
      dfa @ [inc (system_name meta) cur CRITICAL (last_monitored meta) CRITICAL
                 (system_parent_id meta) (system_id meta)],
      set_limiter st (system_id meta) n (set_last_time_that_did_task (ls n) lt))"
  using assms
  by (simp add: classify_alert_def warning_block_def critical_block_def py_and_Inr Let_def)

theorem critical_edge_single_alert_witness:
  "system_critical_timed_task_limiters ex_state (system_id (ex_meta 1700000050)) =
     Some ex_limiters \<and>
   warning_threshold ex_cpu_spec = Some 70 \<and> critical_threshold ex_cpu_spec = Some 90 \<and>
   warning_enabled ex_cpu_spec \<and> critical_enabled ex_cpu_spec \<and>
   (60::real) < 70 \<and> (90::real) \<le> 95 \<and>
   utc_fromtimestamp (last_monitored (ex_meta 1700000050)) = Inr 1700000050 \<and>
   can_do_task (ex_limiters CPU_USE_LIMITER_NAME) 1700000050 \<and>
   classify_alert utc_fromtimestamp ex_state 95 (Some 60) ex_cpu_spec (ex_meta 1700000050)
     SystemCPUUsageIncreasedAboveThresholdAlert SystemCPUUsageDecreasedBelowThresholdAlert []
     CPU_USE_LIMITER_NAME =
   (None,
    [SystemCPUUsageIncreasedAboveThresholdAlert ''node_1'' 95 CRITICAL 1700000050 CRITICAL
       ''chain_1'' ''system_1''],
    set_limiter ex_state ''system_1'' CPU_USE_LIMITER_NAME
      (set_last_time_that_did_task (ex_limiters CPU_USE_LIMITER_NAME) 1700000050))"
proof -
  have h1: "system_critical_timed_task_limiters ex_state (system_id (ex_meta 1700000050)) =
      Some ex_limiters"
    by (simp add: ex_state_def ex_meta_def)
  have h2: "warning_threshold ex_cpu_spec = Some 70" by (simp add: ex_cpu_spec_def)
  have h3: "critical_threshold ex_cpu_spec = Some 90" by (simp add: ex_cpu_spec_def)
  have h4: "warning_enabled ex_cpu_spec" by (simp add: ex_cpu_spec_def)
  have h5: "critical_enabled ex_cpu_spec" by (simp add: ex_cpu_spec_def)
  have h6: "(60::real) < 70" by simp
  have h7: "(90::real) \<le> 95" by simp
  have h8: "utc_fromtimestamp (last_monitored (ex_meta 1700000050)) = Inr 1700000050"
    by (simp add: utc_fromtimestamp_numeral ex_meta_def)
  have h9: "can_do_task (ex_limiters CPU_USE_LIMITER_NAME) 1700000050"
    by (simp add: can_do_task_def ex_limiters_def new_TimedTaskLimiter_def)
  show ?thesis
    using h1 h2 h3 h4 h5 h6 h7 h8 h9
      critical_edge_single_alert [where tz = utc_fromtimestamp, OF h1 h2 h3 h4 h5 h6 h7 h8 h9,
        of SystemCPUUsageIncreasedAboveThresholdAlert
        SystemCPUUsageDecreasedBelowThresholdAlert "[]"]
    by (simp add: ex_meta_def)
qed

section \<open>The prefetch count\<close>

lemma py_round_near:
  assumes "\<bar>x - real_of_int m\<bar> < 1 / 2"
  shows "py_round x = m"
proof -
  from assms have lo: "real_of_int m - 1 / 2 < x" and hi: "x < real_of_int m + 1 / 2"
    by linarith+
  have "\<lfloor>x\<rfloor> = m \<or> \<lfloor>x\<rfloor> = m - 1"
  proof (cases "real_of_int m \<le> x")
    case True
    with hi have "\<lfloor>x\<rfloor> = m" by (intro floor_unique) linarith+
    then show ?thesis by simp
  next
    case False
    have "real_of_int (m - 1) = real_of_int m - 1" by simp
    with lo False have "real_of_int (m - 1) \<le> x" "x < real_of_int (m - 1) + 1" by linarith+
    then have "\<lfloor>x\<rfloor> = m - 1" by (rule floor_unique)
    then show ?thesis by simp
  qed
  then show ?thesis
  proof
    assume f: "\<lfloor>x\<rfloor> = m"
    with hi show ?thesis by (simp add: py_round_def Let_def)
  next
    assume f: "\<lfloor>x\<rfloor> = m - 1"
    with lo show ?thesis by (simp add: py_round_def Let_def)
  qed
qed

lemma py_round_err: "\<bar>real_of_int (py_round y) - y\<bar> \<le> 1 / 2"
proof -
  have "real_of_int \<lfloor>y\<rfloor> \<le> y" "y < real_of_int \<lfloor>y\<rfloor> + 1" by linarith+
  then show ?thesis by (auto simp: py_round_def Let_def)
qed

lemma round_to_double_err: "\<bar>round_to_double x - x\<bar> \<le> \<bar>x\<bar> / 2 ^ 53"
proof (cases "x = 0")
  case True
  then show ?thesis by (simp add: round_to_double_def)
next
  case False
  define u where "u = 2 powr (real_of_int \<lfloor>log 2 \<bar>x\<bar>\<rfloor> - 52)"
  have u0: "0 < u" by (simp add: u_def)
  have r: "round_to_double x = real_of_int (py_round (x / u)) * u"
    using False by (simp add: round_to_double_def u_def Let_def)
  have "real_of_int \<lfloor>log 2 \<bar>x\<bar>\<rfloor> - 52 \<le> log 2 \<bar>x\<bar> - 52" by simp
  then have "u \<le> 2 powr (log 2 \<bar>x\<bar> - 52)" unfolding u_def by (intro powr_mono) simp_all
  also have "\<dots> = \<bar>x\<bar> / 2 ^ 52"
    using False by (simp add: powr_diff)
  finally have ub: "u \<le> \<bar>x\<bar> / 2 ^ 52" .
  have "round_to_double x - x = (real_of_int (py_round (x / u)) - x / u) * u"
    using u0 by (simp add: r field_simps)
  then have "\<bar>round_to_double x - x\<bar> = \<bar>real_of_int (py_round (x / u)) - x / u\<bar> * u"
    using u0 by (simp add: abs_mult)
  also have "\<dots> \<le> (1 / 2) * u"
    using py_round_err [of "x / u"] u0 by (intro mult_right_mono) simp_all
  also have "\<dots> \<le> (1 / 2) * (\<bar>x\<bar> / 2 ^ 52)" using ub by simp
  also have "\<dots> = \<bar>x\<bar> / 2 ^ 53" by simp
  finally show ?thesis .
qed

lemma fifth_near:
  "\<bar>real_of_int n / 5 - real_of_int ((n + 2) div 5)\<bar> \<le> 2 / 5"
proof -
  have "5 * ((n + 2) div 5) - 2 \<le> n" "n \<le> 5 * ((n + 2) div 5) + 2" by presburger+
  then have "real_of_int (5 * ((n + 2) div 5) - 2) \<le> real_of_int n"
    "real_of_int n \<le> real_of_int (5 * ((n + 2) div 5) + 2)"
    by (simp_all only: of_int_le_iff)
  then have "- 2 \<le> real_of_int n - 5 * real_of_int ((n + 2) div 5)"
    "real_of_int n - 5 * real_of_int ((n + 2) div 5) \<le> 2"
    by simp_all
  then have "real_of_int n / 5 - real_of_int ((n + 2) div 5) \<le> 2 / 5"
    "- (2 / 5) \<le> real_of_int n / 5 - real_of_int ((n + 2) div 5)"
    by linarith+
  then show ?thesis by (intro abs_leI) linarith+
qed

lemma prefetch_count_bounded:
  assumes "\<bar>n\<bar> < 2 ^ 50"
  shows "prefetch_count n = Inr ((n + 2) div 5)"
proof -
  let ?x = "real_of_int n / 5"
  let ?q = "round_to_double ?x"
  from assms have "real_of_int \<bar>n\<bar> < real_of_int (2 ^ 50)" by (simp only: of_int_less_iff)
  then have nb: "\<bar>real_of_int n\<bar> < 2 ^ 50" by simp
  then have xb: "\<bar>?x\<bar> < 2 ^ 50 / 5" by simp
  have "\<bar>?q - ?x\<bar> \<le> \<bar>?x\<bar> / 2 ^ 53" by (rule round_to_double_err)
  also have "\<dots> \<le> (2 ^ 50 / 5) / 2 ^ 53" using xb by (intro divide_right_mono) simp_all
  also have "\<dots> = 1 / 40" by simp
  finally have qe: "\<bar>?q - ?x\<bar> \<le> 1 / 40" .
  have "\<bar>?q - real_of_int ((n + 2) div 5)\<bar> \<le> \<bar>?q - ?x\<bar> + \<bar>?x - real_of_int ((n + 2) div 5)\<bar>"
    by simp
  with qe fifth_near [of n] have "\<bar>?q - real_of_int ((n + 2) div 5)\<bar> < 1 / 2" by linarith
  then have pr: "py_round ?q = (n + 2) div 5" by (rule py_round_near)
  have "\<bar>?q\<bar> \<le> \<bar>?q - ?x\<bar> + \<bar>?x\<bar>" by simp
  with qe xb have "\<bar>?q\<bar> < 2 ^ 50" by simp
  also have "(2::real) ^ 50 \<le> 2 ^ 1024" by (intro power_increasing) simp_all
  finally have "\<not> 2 ^ 1024 \<le> \<bar>?q\<bar>" by simp
  with pr show ?thesis by (simp add: prefetch_count_def int_true_div_def Let_def)
qed

lemma mod5_cases:
  "(n::int) mod 5 = 0 \<or> n mod 5 = 1 \<or> n mod 5 = 2 \<or> n mod 5 = 3 \<or> n mod 5 = 4"
  by presburger

text \<open>
  C8, as the code has it. For a capacity below \<open>2^50\<close> in absolute value the prefetch
  count is \<open>round(maxsize / 5)\<close>, the integer nearest to a fifth of the capacity, which
  is \<open>(maxsize + 2) div 5\<close>: the double-precision quotient is within 1/40 of the exact
  one. It is the ceiling of the fifth exactly when the capacity leaves remainder 0, 3 or
  4 on division by 5.
\<close>

theorem prefetch_count_rounds:
  assumes "\<bar>n\<bar> < 2 ^ 50"
  shows "prefetch_count n = Inr ((n + 2) div 5) \<and>
         (prefetch_count n = Inr \<lceil>real_of_int n / 5\<rceil> \<longleftrightarrow>
            n mod 5 = 0 \<or> n mod 5 = 3 \<or> n mod 5 = 4)"
proof -
  note pc = prefetch_count_bounded [OF assms]
  have c: "\<lceil>real_of_int n / 5\<rceil> = (if n mod 5 = 0 then n div 5 else n div 5 + 1)"
  proof -
    have "\<lceil>real_of_int n / 5\<rceil> = - ((- n) div 5)"
      using floor_divide_of_int_eq [of "- n" 5, where ?'a = real]
      by (simp add: ceiling_def)
    also have "\<dots> = (if n mod 5 = 0 then n div 5 else n div 5 + 1)" by presburger
    finally show ?thesis .
  qed
  have "(n + 2) div 5 = \<lceil>real_of_int n / 5\<rceil> \<longleftrightarrow> n mod 5 = 0 \<or> n mod 5 = 3 \<or> n mod 5 = 4"
    unfolding c using mod5_cases [of n] by presburger
  with pc show ?thesis by simp
qed

theorem prefetch_count_rounds_witness:
  "\<bar>500::int\<bar> < 2 ^ 50 \<and> prefetch_count 500 = Inr 100 \<and> \<lceil>real_of_int 500 / 5\<rceil> = 100"
proof -
  have h: "\<bar>500::int\<bar> < 2 ^ 50" by simp
  from prefetch_count_rounds [OF h] h show ?thesis by simp
qed

text \<open>
  C8 as stated fails at a capacity of 6: the code asks for a prefetch of 1, the ceiling
  of 6/5 is 2.
\<close>

theorem prefetch_count_counterexample:
  "prefetch_count 6 = Inr 1 \<and> \<lceil>real_of_int 6 / 5\<rceil> = 2 \<and>
   prefetch_count 6 \<noteq> Inr \<lceil>real_of_int 6 / 5\<rceil>"
proof -
  have "\<bar>6::int\<bar> < 2 ^ 50" by simp
  from prefetch_count_bounded [OF this] show ?thesis by simp
qed

section \<open>Spacing of critical alerts\<close>












lemma limiters_set_limiter:
  "system_critical_timed_task_limiters (set_limiter s i m l) sid =
     (if sid = i then map_option (\<lambda>ls. ls(m := l)) (system_critical_timed_task_limiters s i)
      else system_critical_timed_task_limiters s sid)"
  by (simp add: set_limiter_def split: option.splits)

lemma limiters_set_flag:
  "system_critical_timed_task_limiters (set_initial_downtime_alert_sent s i b) =
     system_critical_timed_task_limiters s"
  by (simp add: set_initial_downtime_alert_sent_def)

lemma flags_set_limiter:
  "system_initial_downtime_alert_sent (set_limiter s i m l) =
     system_initial_downtime_alert_sent s"
  by (simp add: set_limiter_def)

lemma flags_set_flag:
  "system_initial_downtime_alert_sent (set_initial_downtime_alert_sent s i b) =
     (system_initial_downtime_alert_sent s)(i \<mapsto> b)"
  by (simp add: set_initial_downtime_alert_sent_def)

lemma limiters_create:
  "system_critical_timed_task_limiters (create_state_for_system cfg s i) sid =
     (if sid = i \<and> system_critical_timed_task_limiters s i = None
      then Some (\<lambda>n. new_TimedTaskLimiter (real_of_int (critical_repeat (config_of cfg n))))
      else system_critical_timed_task_limiters s sid)"
  by (auto simp: create_state_for_system_def Let_def dom_def)

lemma flags_create:
  "system_initial_downtime_alert_sent (create_state_for_system cfg s i) sid =
     (if sid = i \<and> system_initial_downtime_alert_sent s i = None then Some False
      else system_initial_downtime_alert_sent s sid)"
  by (auto simp: create_state_for_system_def Let_def dom_def)

lemmas state_simps = limiters_set_limiter limiters_set_flag flags_set_limiter flags_set_flag
  limiters_create flags_create

lemma limiter_simps [simp]:
  "time_interval (set_last_time_that_did_task l t) = time_interval l"
  "time_interval (reset l) = time_interval l"
  "last_time_that_did_task (set_last_time_that_did_task l t) = Some t"
  "last_time_that_did_task (reset l) = None"
  "time_interval (new_TimedTaskLimiter r) = r"
  "last_time_that_did_task (new_TimedTaskLimiter r) = None"
  by (simp_all add: set_last_time_that_did_task_def reset_def new_TimedTaskLimiter_def)






lemmas eval_defs = classification_def process_results_def process_back_up_def process_errors_def
  classify_metric_def classify_alert_def warning_block_def critical_block_def and_then_def
  create_state_for_system_def set_limiter_def set_initial_downtime_alert_sent_def
  can_do_task_def set_last_time_that_did_task_def reset_def new_TimedTaskLimiter_def
  floaty_def init_state_def Let_def py_and_Inr



section \<open>The RAM block\<close>

text \<open>
  C2 at a concrete input. The RAM thresholds are 80 and 95, the CPU thresholds 70 and
  90, and the RAM sample rises from 75 to 85. \<open>_process_results\<close> appends nothing,
  because it classifies the RAM sample against the CPU thresholds; classified against
  the RAM thresholds, the same sample gives the RAM increased-above alert at \<open>WARNING\<close>.
\<close>

theorem ram_classified_with_cpu_config:
  "process_results utc_fromtimestamp ex_config ex_state (ram_metrics 75 85) (ex_meta 1700000000) [] =
     (None, [], ex_state) \<and>
   classify_alert utc_fromtimestamp ex_state 85 (floaty (Some 75)) (system_ram_usage ex_config) (ex_meta 1700000000)
     SystemRAMUsageIncreasedAboveThresholdAlert SystemRAMUsageDecreasedBelowThresholdAlert []
     RAM_USE_LIMITER_NAME =
     (None,
      [SystemRAMUsageIncreasedAboveThresholdAlert ''node_1'' 85 WARNING 1700000000 WARNING
         ''chain_1'' ''system_1''],
      ex_state)"
  by (simp add: ex_defs eval_defs)

section \<open>The downtime alerts of the error path\<close>

text \<open>
  C4. On an error with code 5004 when \<open>is_down\<close> is enabled, with a numeric
  \<open>went_down_at.current\<close>, an error time that converts to the local instant \<open>lt\<close>, the
  state of the system in place and numeric thresholds where the code compares with them,
  \<open>_process_errors\<close> raises nothing. If the flag \<open>initial_downtime_alert_sent\<close> is false
  it appends one went-down alert, \<open>CRITICAL\<close> when criticals are enabled and the
  downtime is at least the critical threshold, otherwise \<open>WARNING\<close> when warnings are
  enabled and the downtime is at least the warning threshold (and nothing when neither
  holds); with either alert the limiter is recorded at \<open>lt\<close> and the flag is set. If
  the flag is true it appends no went-down alert, only the still-down alert at
  \<open>CRITICAL\<close> with the downtime when criticals are enabled and the limiter permits at
  \<open>lt\<close>, and then records the limiter at \<open>lt\<close>.
\<close>

theorem process_errors_down:
  assumes "code err = 5004"
      and "enabled (system_is_down cfg)"
      and "current (data_went_down_at err) = Some cur"
      and "tz (time (meta_data err)) = Inr lt"
      and "system_critical_timed_task_limiters st (system_id (meta_data err)) = Some ls"
      and "system_initial_downtime_alert_sent st (system_id (meta_data err)) = Some sent"
      and "\<not> sent \<and> critical_enabled (system_is_down cfg) \<Longrightarrow>
             critical_threshold (system_is_down cfg) = Some c"
      and "\<not> sent \<and> warning_enabled (system_is_down cfg) \<and>
           \<not> (critical_enabled (system_is_down cfg) \<and> c \<le> time (meta_data err) - cur) \<Longrightarrow>
             warning_threshold (system_is_down cfg) = Some w"
  shows "process_errors tz cfg st err dfa =
     (None,
      dfa @
      (if \<not> sent \<and> critical_enabled (system_is_down cfg) \<and> c \<le> time (meta_data err) - cur
       then [SystemWentDownAtAlert (system_name (meta_data err)) CRITICAL (time (meta_data err))
               (system_parent_id (meta_data err)) (system_id (meta_data err))]
       else if \<not> sent \<and> warning_enabled (system_is_down cfg) \<and> w \<le> time (meta_data err) - cur
       then [SystemWentDownAtAlert (system_name (meta_data err)) WARNING (time (meta_data err))
               (system_parent_id (meta_data err)) (system_id (meta_data err))]
       else if sent \<and> critical_enabled (system_is_down cfg) \<and>
               can_do_task (ls IS_DOWN_LIMITER_NAME) lt
       then [SystemStillDownAlert (system_name (meta_data err)) (time (meta_data err) - cur)
               CRITICAL (time (meta_data err)) (system_parent_id (meta_data err))
               (system_id (meta_data err))]
       else []),
      if \<not> sent \<and>
         (critical_enabled (system_is_down cfg) \<and> c \<le> time (meta_data err) - cur \<or>
          warning_enabled (system_is_down cfg) \<and> w \<le> time (meta_data err) - cur)
      then set_initial_downtime_alert_sent
             (set_limiter st (system_id (meta_data err)) IS_DOWN_LIMITER_NAME
                (set_last_time_that_did_task (ls IS_DOWN_LIMITER_NAME) lt))
             (system_id (meta_data err)) True
      else if sent \<and> critical_enabled (system_is_down cfg) \<and>
              can_do_task (ls IS_DOWN_LIMITER_NAME) lt
      then set_limiter st (system_id (meta_data err)) IS_DOWN_LIMITER_NAME
             (set_last_time_that_did_task (ls IS_DOWN_LIMITER_NAME) lt)
      else st)"
proof (cases sent)
  case True
  with assms(1-6) show ?thesis
    by (simp add: process_errors_def py_and_Inr Let_def)
next
  case False
  note ns = False
  show ?thesis
  proof (cases "critical_enabled (system_is_down cfg)")
    case True
    note ce = True
    with ns assms(7) have C: "critical_threshold (system_is_down cfg) = Some c" by simp
    show ?thesis
    proof (cases "c \<le> time (meta_data err) - cur")
      case True
      with ns ce C assms(1-6) show ?thesis
        by (simp add: process_errors_def py_and_Inr Let_def)
    next
      case False
      note nc = False
      show ?thesis
      proof (cases "warning_enabled (system_is_down cfg)")
        case True
        with ns nc assms(8) have "warning_threshold (system_is_down cfg) = Some w" by simp
        with True ns ce C nc assms(1-6) show ?thesis
          by (simp add: process_errors_def py_and_Inr Let_def)
      next
        case False
        with ns ce C nc assms(1-6) show ?thesis
          by (simp add: process_errors_def py_and_Inr Let_def)
      qed
    qed
  next
    case False
    note nce = False
    show ?thesis
    proof (cases "warning_enabled (system_is_down cfg)")
      case True
      with ns nce assms(8) have "warning_threshold (system_is_down cfg) = Some w" by simp
      with True ns nce assms(1-6) show ?thesis
        by (simp add: process_errors_def py_and_Inr Let_def)
    next
      case False
      with ns nce assms(1-6) show ?thesis
        by (simp add: process_errors_def py_and_Inr Let_def)
    qed
  qed
qed

theorem process_errors_down_witness:
  "code (down_error 1700000030) = 5004 \<and> enabled (system_is_down ex_config) \<and>
   current (data_went_down_at (down_error 1700000030)) = Some 1700000000 \<and>
   utc_fromtimestamp (time (meta_data (down_error 1700000030))) = Inr 1700000030 \<and>
   system_critical_timed_task_limiters ex_state (system_id (meta_data (down_error 1700000030))) =
     Some ex_limiters \<and>
   system_initial_downtime_alert_sent ex_state (system_id (meta_data (down_error 1700000030))) =
     Some False \<and>
   critical_enabled (system_is_down ex_config) \<and>
   critical_threshold (system_is_down ex_config) = Some 20 \<and>
   warning_threshold (system_is_down ex_config) = Some 10 \<and>
   process_errors utc_fromtimestamp ex_config ex_state (down_error 1700000030) [] =
     (None,
      [SystemWentDownAtAlert ''node_1'' CRITICAL 1700000030 ''chain_1'' ''system_1''],
      set_initial_downtime_alert_sent
        (set_limiter ex_state ''system_1'' IS_DOWN_LIMITER_NAME
           (set_last_time_that_did_task (ex_limiters IS_DOWN_LIMITER_NAME) 1700000030))
        ''system_1'' True)"
proof -
  have h1: "code (down_error 1700000030) = 5004" by (simp add: down_error_def)
  have h2: "enabled (system_is_down ex_config)" by (simp add: ex_config_def ex_is_down_spec_def)
  have h3: "current (data_went_down_at (down_error 1700000030)) = Some 1700000000"
    by (simp add: down_error_def)
  have h4: "utc_fromtimestamp (time (meta_data (down_error 1700000030))) = Inr 1700000030"
    by (simp add: utc_fromtimestamp_numeral down_error_def ex_error_meta_def)
  have h5: "system_critical_timed_task_limiters ex_state
              (system_id (meta_data (down_error 1700000030))) = Some ex_limiters"
    by (simp add: down_error_def ex_error_meta_def ex_state_def)
  have h6: "system_initial_downtime_alert_sent ex_state
              (system_id (meta_data (down_error 1700000030))) = Some False"
    by (simp add: down_error_def ex_error_meta_def ex_state_def)
  have h7: "critical_threshold (system_is_down ex_config) = Some 20"
    by (simp add: ex_config_def ex_is_down_spec_def)
  have h8: "warning_threshold (system_is_down ex_config) = Some 10"
    by (simp add: ex_config_def ex_is_down_spec_def)
  have h9: "critical_enabled (system_is_down ex_config)"
    by (simp add: ex_config_def ex_is_down_spec_def)
  show ?thesis
    using h1 h2 h3 h4 h5 h6 h7 h8 h9
      process_errors_down [where tz = utc_fromtimestamp, OF h1 h2 h3 h4 h5 h6 h7 h8, of "[]"]
    by (simp add: down_error_def ex_error_meta_def ex_config_def ex_is_down_spec_def)
qed

section \<open>What the blocks of the result path leave alone\<close>

lemma classify_alert_frame:
  assumes tp: "threshold_pair n inc dec"
      and run: "classify_alert tz st cur prev config meta inc dec dfa n = (e, dfa', st')"
  shows "\<exists>new. dfa' = dfa @ new \<and> (\<forall>a \<in> set new. alert_metric a = Some n \<and> \<not> is_back_up a) \<and>
           (st' = st \<or> (\<exists>l. st' = set_limiter st (system_id meta) n l))"
proof (cases "system_critical_timed_task_limiters st (system_id meta)")
  case None
  with run show ?thesis by (simp add: classify_alert_def)
next
  case (Some ls)
  obtain e1 d1 where wb: "warning_block cur prev config meta inc dec dfa = (e1, d1)"
    by (cases "warning_block cur prev config meta inc dec dfa") auto
  from warning_block_cases [OF wb] tp
  have "\<exists>new1. d1 = dfa @ new1 \<and> (\<forall>a \<in> set new1. alert_metric a = Some n \<and> \<not> is_back_up a)"
    by (auto simp: threshold_pair_def)
  then obtain new1 where n1: "d1 = dfa @ new1"
      "\<forall>a \<in> set new1. alert_metric a = Some n \<and> \<not> is_back_up a"
    by blast
  show ?thesis
  proof (cases e1)
    case (Some x)
    with run wb \<open>system_critical_timed_task_limiters st (system_id meta) = Some ls\<close> n1
    show ?thesis by (auto simp: classify_alert_def)
  next
    case None
    with run wb \<open>system_critical_timed_task_limiters st (system_id meta) = Some ls\<close>
    have cb: "critical_block tz st (ls n) cur prev config meta inc dec d1 n = (e, dfa', st')"
      by (simp add: classify_alert_def)
    from critical_block_cases [OF cb] tp
    have "\<exists>new2. dfa' = d1 @ new2 \<and>
            (\<forall>a \<in> set new2. alert_metric a = Some n \<and> \<not> is_back_up a) \<and>
            (st' = st \<or> (\<exists>l. st' = set_limiter st (system_id meta) n l))"
      by (auto simp: threshold_pair_def)
    then obtain new2 where n2: "dfa' = d1 @ new2"
      "\<forall>a \<in> set new2. alert_metric a = Some n \<and> \<not> is_back_up a"
      "st' = st \<or> (\<exists>l. st' = set_limiter st (system_id meta) n l)"
      by blast
    from n1 n2 have "dfa' = dfa @ (new1 @ new2)"
      "\<forall>a \<in> set (new1 @ new2). alert_metric a = Some n \<and> \<not> is_back_up a"
      by auto
    with n2(3) show ?thesis by blast
  qed
qed

lemma classify_metric_frame:
  assumes tp: "threshold_pair n inc dec"
      and run: "classify_metric tz st gate config s meta inc dec dfa n = (e, dfa', st')"
  shows "\<exists>new. dfa' = dfa @ new \<and> (\<forall>a \<in> set new. alert_metric a = Some n \<and> \<not> is_back_up a) \<and>
           (st' = st \<or> (\<exists>l. st' = set_limiter st (system_id meta) n l))"
proof (cases "enabled gate \<and> current s \<noteq> None \<and> current s \<noteq> previous s")
  case True
  then obtain cur where "current s = Some cur" by auto
  with True run
  have "classify_alert tz st cur (floaty (previous s)) config meta inc dec dfa n = (e, dfa', st')"
    by (simp add: classify_metric_def)
  from classify_alert_frame [OF tp this] show ?thesis .
next
  case False
  with run have "dfa' = dfa \<and> st' = st"
    by (auto simp: classify_metric_def split: option.splits if_splits)
  then show ?thesis by simp
qed

lemma classify_metric_skip:
  assumes "current s = previous s \<or> current s = None"
  shows "classify_metric tz st gate config s meta inc dec dfa n = (None, dfa, st)"
  using assms by (auto simp: classify_metric_def split: option.splits)

lemma and_then_pres:
  assumes "Q d0 s0"
      and "\<And>st dfa e d' s'. Q dfa st \<Longrightarrow> f st dfa = (e, d', s') \<Longrightarrow> Q d' s'"
      and "and_then (e0, d0, s0) f = (e, d', s')"
  shows "Q d' s'"
proof (cases e0)
  case None
  with assms(3) have "f s0 d0 = (e, d', s')" by (simp add: and_then_def)
  from assms(2) [OF assms(1) this] show ?thesis .
next
  case (Some a)
  with assms(3) assms(1) show ?thesis by (simp add: and_then_def)
qed

lemma process_results_pres:
  assumes run: "process_results tz cfg st ms meta dfa = (e, dfa', st')"
      and b: "\<And>e0 d0 s0. process_back_up cfg st ms meta dfa = (e0, d0, s0) \<Longrightarrow> Q d0 s0"
      and fd: "\<And>st dfa e d' s'. Q dfa st \<Longrightarrow>
           classify_metric tz st (open_file_descriptors cfg) (open_file_descriptors cfg)
             (m_open_file_descriptors ms) meta OpenFileDescriptorsIncreasedAboveThresholdAlert
             OpenFileDescriptorsDecreasedBelowThresholdAlert dfa OPEN_FD_LIMITER_NAME = (e, d', s')
           \<Longrightarrow> Q d' s'"
      and sto: "\<And>st dfa e d' s'. Q dfa st \<Longrightarrow>
           classify_metric tz st (system_storage_usage cfg) (system_storage_usage cfg)
             (m_system_storage_usage ms) meta SystemStorageUsageIncreasedAboveThresholdAlert
             SystemStorageUsageDecreasedBelowThresholdAlert dfa STORAGE_USE_LIMITER_NAME = (e, d', s')
           \<Longrightarrow> Q d' s'"
      and cpu: "\<And>st dfa e d' s'. Q dfa st \<Longrightarrow>
           classify_metric tz st (system_cpu_usage cfg) (system_cpu_usage cfg)
             (m_system_cpu_usage ms) meta SystemCPUUsageIncreasedAboveThresholdAlert
             SystemCPUUsageDecreasedBelowThresholdAlert dfa CPU_USE_LIMITER_NAME = (e, d', s')
           \<Longrightarrow> Q d' s'"
      and ram: "\<And>st dfa e d' s'. Q dfa st \<Longrightarrow>
           classify_metric tz st (system_ram_usage cfg) (system_cpu_usage cfg)
             (m_system_ram_usage ms) meta SystemRAMUsageIncreasedAboveThresholdAlert
             SystemRAMUsageDecreasedBelowThresholdAlert dfa RAM_USE_LIMITER_NAME = (e, d', s')
           \<Longrightarrow> Q d' s'"
  shows "Q dfa' st'"
proof -
  obtain e0 d0 s0 where b0: "process_back_up cfg st ms meta dfa = (e0, d0, s0)"
    by (cases "process_back_up cfg st ms meta dfa") auto
  note q0 = b [OF b0]
  obtain e1 d1 s1 where r1: "and_then (e0, d0, s0)
        (\<lambda>st dfa. classify_metric tz st (open_file_descriptors cfg) (open_file_descriptors cfg)
           (m_open_file_descriptors ms) meta OpenFileDescriptorsIncreasedAboveThresholdAlert
           OpenFileDescriptorsDecreasedBelowThresholdAlert dfa OPEN_FD_LIMITER_NAME) = (e1, d1, s1)"
    using prod_cases3 by blast
  have q1: "Q d1 s1" by (rule and_then_pres [where Q = Q, OF q0 _ r1]) (rule fd)
  obtain e2 d2 s2 where r2: "and_then (e1, d1, s1)
        (\<lambda>st dfa. classify_metric tz st (system_storage_usage cfg) (system_storage_usage cfg)
           (m_system_storage_usage ms) meta SystemStorageUsageIncreasedAboveThresholdAlert
           SystemStorageUsageDecreasedBelowThresholdAlert dfa STORAGE_USE_LIMITER_NAME) = (e2, d2, s2)"
    using prod_cases3 by blast
  have q2: "Q d2 s2" by (rule and_then_pres [where Q = Q, OF q1 _ r2]) (rule sto)
  obtain e3 d3 s3 where r3: "and_then (e2, d2, s2)
        (\<lambda>st dfa. classify_metric tz st (system_cpu_usage cfg) (system_cpu_usage cfg)
           (m_system_cpu_usage ms) meta SystemCPUUsageIncreasedAboveThresholdAlert
           SystemCPUUsageDecreasedBelowThresholdAlert dfa CPU_USE_LIMITER_NAME) = (e3, d3, s3)"
    using prod_cases3 by blast
  have q3: "Q d3 s3" by (rule and_then_pres [where Q = Q, OF q2 _ r3]) (rule cpu)
  have r4: "and_then (e3, d3, s3)
        (\<lambda>st dfa. classify_metric tz st (system_ram_usage cfg) (system_cpu_usage cfg)
           (m_system_ram_usage ms) meta SystemRAMUsageIncreasedAboveThresholdAlert
           SystemRAMUsageDecreasedBelowThresholdAlert dfa RAM_USE_LIMITER_NAME) = (e, dfa', st')"
    using run b0 r1 r2 r3 by (simp add: process_results_def Let_def)
  show ?thesis by (rule and_then_pres [where Q = Q, OF q3 _ r4]) (rule ram)
qed

lemma process_back_up_cases:
  assumes "process_back_up cfg st ms meta dfa = (e, dfa', st')"
  shows "(dfa' = dfa \<and> st' = st \<and>
          \<not> (enabled (system_is_down cfg) \<and> previous (went_down_at ms) \<noteq> None \<and>
             system_critical_timed_task_limiters st (system_id meta) \<noteq> None)) \<or>
         (\<exists>ls. enabled (system_is_down cfg) \<and> previous (went_down_at ms) \<noteq> None \<and>
               system_critical_timed_task_limiters st (system_id meta) = Some ls \<and> e = None \<and>
               dfa' = dfa @ [SystemBackUpAgainAlert (system_name meta) INFO (last_monitored meta)
                               (system_parent_id meta) (system_id meta)] \<and>
               st' = set_limiter (set_initial_downtime_alert_sent st (system_id meta) False)
                       (system_id meta) IS_DOWN_LIMITER_NAME (reset (ls IS_DOWN_LIMITER_NAME)))"
  using assms
  by (auto simp: process_back_up_def Let_def split: if_splits option.splits)

section \<open>The back-up transition\<close>

lemma back_up_emitted:
  assumes rk: "parent_id cfg \<in> set (split_on CHR ''.'' rk)"
      and en: "enabled (system_is_down cfg)"
      and pr: "previous (went_down_at ms) \<noteq> None"
      and run: "classification tz cfg st rk (Result ms meta) = (e, dfa, st')"
  shows "filter is_back_up dfa =
           [SystemBackUpAgainAlert (system_name meta) INFO (last_monitored meta)
              (system_parent_id meta) (system_id meta)] \<and>
         system_initial_downtime_alert_sent st' (system_id meta) = Some False \<and>
         (\<exists>ls. system_critical_timed_task_limiters st' (system_id meta) = Some ls \<and>
               last_time_that_did_task (ls IS_DOWN_LIMITER_NAME) = None)"
proof -
  let ?B = "SystemBackUpAgainAlert (system_name meta) INFO (last_monitored meta)
              (system_parent_id meta) (system_id meta)"
  let ?Q = "\<lambda>d s. filter is_back_up d = [?B] \<and>
         system_initial_downtime_alert_sent s (system_id meta) = Some False \<and>
         (\<exists>ls. system_critical_timed_task_limiters s (system_id meta) = Some ls \<and>
               last_time_that_did_task (ls IS_DOWN_LIMITER_NAME) = None)"
  let ?s0 = "create_state_for_system cfg st (system_id meta)"
  from run rk have pr_run: "process_results tz cfg ?s0 ms meta [] = (e, dfa, st')"
    by (simp add: classification_def)
  have frame: "?Q d' s'"
    if q: "?Q d s" and tp: "threshold_pair n inc dec"
      and cm: "classify_metric tz s gate config smp meta inc dec d n = (e', d', s')"
    for d s d' s' e' n inc dec gate config smp
  proof -
    from classify_metric_frame [OF tp cm] obtain new where
      new: "d' = d @ new" "\<forall>a \<in> set new. alert_metric a = Some n \<and> \<not> is_back_up a"
        "s' = s \<or> (\<exists>l. s' = set_limiter s (system_id meta) n l)"
      by blast
    from new(2) have "filter is_back_up new = []" by (simp add: filter_empty_conv)
    with q new(1) have f: "filter is_back_up d' = [?B]" by simp
    from tp have "n \<noteq> IS_DOWN_LIMITER_NAME" by (simp add: threshold_pair_def)
    with q new(3) f show ?thesis by (auto simp: state_simps)
  qed
  show ?thesis
  proof (rule process_results_pres [where Q = ?Q, OF pr_run])
    fix e0 d0 s0
    assume b: "process_back_up cfg ?s0 ms meta [] = (e0, d0, s0)"
    have "system_critical_timed_task_limiters ?s0 (system_id meta) \<noteq> None"
      by (simp add: state_simps)
    with process_back_up_cases [OF b] en pr show "?Q d0 s0"
      by (auto simp: state_simps)
  qed (erule frame [OF _ threshold_pairs(1)], assumption,
       erule frame [OF _ threshold_pairs(2)], assumption,
       erule frame [OF _ threshold_pairs(3)], assumption,
       erule frame [OF _ threshold_pairs(4)], assumption)
qed

lemma process_errors_flag:
  assumes "process_errors tz cfg st err dfa = (e, dfa', st')"
      and "system_initial_downtime_alert_sent st sid = Some True"
  shows "system_initial_downtime_alert_sent st' sid = Some True"
  using assms
  by (auto simp: process_errors_def Let_def py_and_def state_simps
           split: if_splits option.splits sum.splits)

lemma flag_cleared_by_back_up:
  assumes run: "classification tz cfg st rk m = (e, dfa, st')"
      and t: "system_initial_downtime_alert_sent st sid = Some True"
      and f: "system_initial_downtime_alert_sent st' sid \<noteq> Some True"
  shows "\<exists>ms meta. m = Result ms meta \<and> system_id meta = sid \<and>
           enabled (system_is_down cfg) \<and> previous (went_down_at ms) \<noteq> None"
proof (cases "parent_id cfg \<in> set (split_on CHR ''.'' rk)")
  case False
  with run t f show ?thesis by (simp add: classification_def)
next
  case True
  show ?thesis
  proof (cases m)
    case Unexpected
    with run True t f show ?thesis by (simp add: classification_def)
  next
    case (Error err)
    let ?s0 = "create_state_for_system cfg st (system_id (meta_data err))"
    from run True Error have "process_errors tz cfg ?s0 err [] = (e, dfa, st')"
      by (simp add: classification_def)
    moreover from t have "system_initial_downtime_alert_sent ?s0 sid = Some True"
      by (auto simp: state_simps)
    ultimately have "system_initial_downtime_alert_sent st' sid = Some True"
      by (rule process_errors_flag)
    with f show ?thesis by simp
  next
    case (Result ms meta)
    let ?s0 = "create_state_for_system cfg st (system_id meta)"
    let ?Q = "\<lambda>(d::alert list) s. system_initial_downtime_alert_sent s sid = Some True \<or>
                (system_id meta = sid \<and> enabled (system_is_down cfg) \<and>
                 previous (went_down_at ms) \<noteq> None)"
    from run True Result have pr_run: "process_results tz cfg ?s0 ms meta [] = (e, dfa, st')"
      by (simp add: classification_def)
    have frame: "?Q d' s'"
      if q: "?Q d s" and tp: "threshold_pair n inc dec"
        and cm: "classify_metric tz s gate config smp meta inc dec d n = (e', d', s')"
      for d s d' s' e' n inc dec gate config smp
      using classify_metric_frame [OF tp cm] q by (auto simp: state_simps)
    have "?Q dfa st'"
    proof (rule process_results_pres [where Q = ?Q, OF pr_run])
      fix e0 d0 s0
      assume b: "process_back_up cfg ?s0 ms meta [] = (e0, d0, s0)"
      from t have F0: "system_initial_downtime_alert_sent ?s0 sid = Some True"
        by (auto simp: state_simps)
      show "?Q d0 s0"
      proof (cases "system_id meta = sid \<and> enabled (system_is_down cfg) \<and>
                    previous (went_down_at ms) \<noteq> None")
        case True
        then show ?thesis by simp
      next
        case False
        with process_back_up_cases [OF b] F0
        have "system_initial_downtime_alert_sent s0 sid = Some True"
          by (auto simp: flags_set_limiter flags_set_flag)
        then show ?thesis by simp
      qed
    qed (erule frame [OF _ threshold_pairs(1)], assumption,
         erule frame [OF _ threshold_pairs(2)], assumption,
         erule frame [OF _ threshold_pairs(3)], assumption,
         erule frame [OF _ threshold_pairs(4)], assumption)
    with f Result show ?thesis by simp
  qed
qed

text \<open>
  C5. When a result is classified with \<open>is_down\<close> enabled and \<open>went_down_at.previous\<close>
  not \<open>None\<close>, whatever \<open>went_down_at.current\<close> is and whatever the metric blocks do
  afterwards, exactly one back-up alert (at \<open>INFO\<close>) is appended, the flag
  \<open>initial_downtime_alert_sent\<close> of the system is false afterwards and its \<open>is_down\<close>
  limiter is reset. And whenever classifying a delivery leaves a flag that was true not
  true, the delivery was such a result for that system.
\<close>

theorem back_up_transition:
  "(parent_id cfg \<in> set (split_on CHR ''.'' rk) \<and> enabled (system_is_down cfg) \<and>
    previous (went_down_at ms) \<noteq> None \<and>
    classification tz cfg st rk (Result ms meta) = (e, dfa, st') \<longrightarrow>
      filter is_back_up dfa =
        [SystemBackUpAgainAlert (system_name meta) INFO (last_monitored meta)
           (system_parent_id meta) (system_id meta)] \<and>
      system_initial_downtime_alert_sent st' (system_id meta) = Some False \<and>
      (\<exists>ls. system_critical_timed_task_limiters st' (system_id meta) = Some ls \<and>
            last_time_that_did_task (ls IS_DOWN_LIMITER_NAME) = None)) \<and>
   (classification tz cfg st2 rk2 m = (e2, dfa2, st2') \<and>
    system_initial_downtime_alert_sent st2 sid = Some True \<and>
    system_initial_downtime_alert_sent st2' sid \<noteq> Some True \<longrightarrow>
      (\<exists>ms2 meta2. m = Result ms2 meta2 \<and> system_id meta2 = sid \<and>
         enabled (system_is_down cfg) \<and> previous (went_down_at ms2) \<noteq> None))"
  using back_up_emitted [of cfg rk ms tz st meta e dfa st']
    flag_cleared_by_back_up [of tz cfg st2 rk2 m e2 dfa2 st2' sid]
  by blast

lemma ex_back_up_step:
  "classification utc_fromtimestamp ex_config ex_down_state ''alerter.system.chain_1''
     (Result back_up_metrics (ex_meta 1700000800)) =
   (None,
    [SystemBackUpAgainAlert ''node_1'' INFO 1700000800 ''chain_1'' ''system_1''],
    ex_state)"
  by (simp add: ex_defs eval_defs fun_eq_iff)

theorem back_up_transition_witness:
  "parent_id ex_config \<in> set (split_on CHR ''.'' ''alerter.system.chain_1'') \<and>
   enabled (system_is_down ex_config) \<and>
   previous (went_down_at back_up_metrics) \<noteq> None \<and>
   classification utc_fromtimestamp ex_config ex_down_state ''alerter.system.chain_1''
     (Result back_up_metrics (ex_meta 1700000800)) =
   (None,
    [SystemBackUpAgainAlert ''node_1'' INFO 1700000800 ''chain_1'' ''system_1''],
    ex_state) \<and>
   system_initial_downtime_alert_sent ex_down_state ''system_1'' = Some True \<and>
   system_initial_downtime_alert_sent ex_state ''system_1'' \<noteq> Some True \<and>
   filter is_back_up
     [SystemBackUpAgainAlert ''node_1'' INFO 1700000800 ''chain_1'' ''system_1''] =
     [SystemBackUpAgainAlert (system_name (ex_meta 1700000800)) INFO
        (last_monitored (ex_meta 1700000800)) (system_parent_id (ex_meta 1700000800))
        (system_id (ex_meta 1700000800))] \<and>
   system_initial_downtime_alert_sent ex_state (system_id (ex_meta 1700000800)) = Some False \<and>
   (\<exists>ls. system_critical_timed_task_limiters ex_state (system_id (ex_meta 1700000800)) = Some ls \<and>
         last_time_that_did_task (ls IS_DOWN_LIMITER_NAME) = None) \<and>
   (\<exists>ms2 meta2. Result back_up_metrics (ex_meta 1700000800) = Result ms2 meta2 \<and>
      system_id meta2 = ''system_1'' \<and> enabled (system_is_down ex_config) \<and>
      previous (went_down_at ms2) \<noteq> None)"
proof -
  have h1: "parent_id ex_config \<in> set (split_on CHR ''.'' ''alerter.system.chain_1'')"
    by (simp add: ex_config_def)
  have h2: "enabled (system_is_down ex_config)" by (simp add: ex_config_def ex_is_down_spec_def)
  have h3: "previous (went_down_at back_up_metrics) \<noteq> None" by (simp add: back_up_metrics_def)
  note h4 = ex_back_up_step
  have h5: "system_initial_downtime_alert_sent ex_down_state ''system_1'' = Some True"
    by (simp add: ex_down_state_def state_simps)
  have h6: "system_initial_downtime_alert_sent ex_state ''system_1'' \<noteq> Some True"
    by (simp add: ex_state_def)
  from back_up_transition [of ex_config "''alerter.system.chain_1''" back_up_metrics
      utc_fromtimestamp ex_down_state "ex_meta 1700000800" None
      "[SystemBackUpAgainAlert ''node_1'' INFO 1700000800 ''chain_1'' ''system_1'']" ex_state
      ex_down_state "''alerter.system.chain_1''" "Result back_up_metrics (ex_meta 1700000800)"
      None "[SystemBackUpAgainAlert ''node_1'' INFO 1700000800 ''chain_1'' ''system_1'']"
      ex_state "''system_1''"]
    h1 h2 h3 h4 h5 h6
  show ?thesis by blast
qed

section \<open>Unchanged and missing samples\<close>

lemma no_alert_of_skipped_metric:
  assumes run: "process_results tz cfg st ms meta [] = (e, dfa, st')"
      and n: "n \<noteq> IS_DOWN_LIMITER_NAME"
      and fd: "n = OPEN_FD_LIMITER_NAME \<Longrightarrow>
                 current (m_open_file_descriptors ms) = previous (m_open_file_descriptors ms) \<or>
                 current (m_open_file_descriptors ms) = None"
      and sto: "n = STORAGE_USE_LIMITER_NAME \<Longrightarrow>
                 current (m_system_storage_usage ms) = previous (m_system_storage_usage ms) \<or>
                 current (m_system_storage_usage ms) = None"
      and cpu: "n = CPU_USE_LIMITER_NAME \<Longrightarrow>
                 current (m_system_cpu_usage ms) = previous (m_system_cpu_usage ms) \<or>
                 current (m_system_cpu_usage ms) = None"
      and ram: "n = RAM_USE_LIMITER_NAME \<Longrightarrow>
                 current (m_system_ram_usage ms) = previous (m_system_ram_usage ms) \<or>
                 current (m_system_ram_usage ms) = None"
  shows "\<forall>a \<in> set dfa. alert_metric a \<noteq> Some n"
proof -
  let ?Q = "\<lambda>d (s::alerter_state). \<forall>a \<in> set d. alert_metric a \<noteq> Some n"
  have other: "?Q d' s'"
    if q: "?Q d s" and tp: "threshold_pair k inc dec" and k: "k \<noteq> n"
      and cm: "classify_metric tz s gate config smp meta inc dec d k = (e', d', s')"
    for d s d' s' e' k inc dec gate config smp
    using classify_metric_frame [OF tp cm] q k by auto
  have same: "?Q d' s'"
    if q: "?Q d s" and skip: "current smp = previous smp \<or> current smp = None"
      and cm: "classify_metric tz s gate config smp meta inc dec d k = (e', d', s')"
    for d s d' s' e' k inc dec gate config smp
    using classify_metric_skip [OF skip, of tz s gate config meta inc dec d k] cm q by simp
  show ?thesis
  proof (rule process_results_pres [where Q = ?Q, OF run])
    fix e0 d0 s0
    assume b: "process_back_up cfg st ms meta [] = (e0, d0, s0)"
    from process_back_up_cases [OF b] n show "?Q d0 s0" by auto
  next
    fix s d e' d' s'
    assume q: "?Q d s"
      and cm: "classify_metric tz s (open_file_descriptors cfg) (open_file_descriptors cfg)
             (m_open_file_descriptors ms) meta OpenFileDescriptorsIncreasedAboveThresholdAlert
             OpenFileDescriptorsDecreasedBelowThresholdAlert d OPEN_FD_LIMITER_NAME = (e', d', s')"
    show "?Q d' s'"
    proof (cases "n = OPEN_FD_LIMITER_NAME")
      case True
      from same [OF q fd [OF True] cm] show ?thesis .
    next
      case False
      then have "OPEN_FD_LIMITER_NAME \<noteq> n" by simp
      from other [OF q threshold_pairs(1) this cm] show ?thesis .
    qed
  next
    fix s d e' d' s'
    assume q: "?Q d s"
      and cm: "classify_metric tz s (system_storage_usage cfg) (system_storage_usage cfg)
             (m_system_storage_usage ms) meta SystemStorageUsageIncreasedAboveThresholdAlert
             SystemStorageUsageDecreasedBelowThresholdAlert d STORAGE_USE_LIMITER_NAME = (e', d', s')"
    show "?Q d' s'"
    proof (cases "n = STORAGE_USE_LIMITER_NAME")
      case True
      from same [OF q sto [OF True] cm] show ?thesis .
    next
      case False
      then have "STORAGE_USE_LIMITER_NAME \<noteq> n" by simp
      from other [OF q threshold_pairs(2) this cm] show ?thesis .
    qed
  next
    fix s d e' d' s'
    assume q: "?Q d s"
      and cm: "classify_metric tz s (system_cpu_usage cfg) (system_cpu_usage cfg)
             (m_system_cpu_usage ms) meta SystemCPUUsageIncreasedAboveThresholdAlert
             SystemCPUUsageDecreasedBelowThresholdAlert d CPU_USE_LIMITER_NAME = (e', d', s')"
    show "?Q d' s'"
    proof (cases "n = CPU_USE_LIMITER_NAME")
      case True
      from same [OF q cpu [OF True] cm] show ?thesis .
    next
      case False
      then have "CPU_USE_LIMITER_NAME \<noteq> n" by simp
      from other [OF q threshold_pairs(3) this cm] show ?thesis .
    qed
  next
    fix s d e' d' s'
    assume q: "?Q d s"
      and cm: "classify_metric tz s (system_ram_usage cfg) (system_cpu_usage cfg)
             (m_system_ram_usage ms) meta SystemRAMUsageIncreasedAboveThresholdAlert
             SystemRAMUsageDecreasedBelowThresholdAlert d RAM_USE_LIMITER_NAME = (e', d', s')"
    show "?Q d' s'"
    proof (cases "n = RAM_USE_LIMITER_NAME")
      case True
      from same [OF q ram [OF True] cm] show ?thesis .
    next
      case False
      then have "RAM_USE_LIMITER_NAME \<noteq> n" by simp
      from other [OF q threshold_pairs(4) this cm] show ?thesis .
    qed
  qed
qed

lemma classification_result:
  assumes "classification tz cfg st rk (Result ms meta) = (e, dfa, st')"
  shows "dfa = [] \<or>
         process_results tz cfg (create_state_for_system cfg st (system_id meta)) ms meta [] =
           (e, dfa, st')"
  using assms by (auto simp: classification_def split: if_splits)

text \<open>
  C7, as the code has it. For each of the four usage metrics (open file descriptors,
  storage, CPU, RAM): when the metric's sample in a result has \<open>current\<close> equal to
  \<open>previous\<close>, or \<open>current\<close> \<open>None\<close>, classifying the result appends no alert of that
  metric to \<open>data_for_alerting\<close>. The downtime metric is not covered: its back-up alert
  depends on \<open>went_down_at.previous\<close> alone.
\<close>

theorem usage_metric_skipped:
  assumes "classification tz cfg st rk (Result ms meta) = (e, dfa, st')"
  shows "(current (m_open_file_descriptors ms) = previous (m_open_file_descriptors ms) \<or>
          current (m_open_file_descriptors ms) = None \<longrightarrow>
            (\<forall>a \<in> set dfa. alert_metric a \<noteq> Some OPEN_FD_LIMITER_NAME)) \<and>
         (current (m_system_storage_usage ms) = previous (m_system_storage_usage ms) \<or>
          current (m_system_storage_usage ms) = None \<longrightarrow>
            (\<forall>a \<in> set dfa. alert_metric a \<noteq> Some STORAGE_USE_LIMITER_NAME)) \<and>
         (current (m_system_cpu_usage ms) = previous (m_system_cpu_usage ms) \<or>
          current (m_system_cpu_usage ms) = None \<longrightarrow>
            (\<forall>a \<in> set dfa. alert_metric a \<noteq> Some CPU_USE_LIMITER_NAME)) \<and>
         (current (m_system_ram_usage ms) = previous (m_system_ram_usage ms) \<or>
          current (m_system_ram_usage ms) = None \<longrightarrow>
            (\<forall>a \<in> set dfa. alert_metric a \<noteq> Some RAM_USE_LIMITER_NAME))"
proof (cases "dfa = []")
  case True
  then show ?thesis by simp
next
  case False
  with classification_result [OF assms]
  have run: "process_results tz cfg (create_state_for_system cfg st (system_id meta)) ms meta [] =
           (e, dfa, st')" by simp
  show ?thesis
    using no_alert_of_skipped_metric [OF run, of OPEN_FD_LIMITER_NAME]
      no_alert_of_skipped_metric [OF run, of STORAGE_USE_LIMITER_NAME]
      no_alert_of_skipped_metric [OF run, of CPU_USE_LIMITER_NAME]
      no_alert_of_skipped_metric [OF run, of RAM_USE_LIMITER_NAME]
    by simp
qed

theorem usage_metric_skipped_witness:
  "classification utc_fromtimestamp ex_config ex_state ''alerter.system.chain_1''
     (Result (cpu_metrics 95 95) (ex_meta 1700000100)) = (None, [], ex_state) \<and>
   current (m_system_cpu_usage (cpu_metrics 95 95)) =
     previous (m_system_cpu_usage (cpu_metrics 95 95)) \<and>
   current (m_open_file_descriptors (cpu_metrics 95 95)) = None \<and>
   current (m_system_storage_usage (cpu_metrics 95 95)) = None \<and>
   current (m_system_ram_usage (cpu_metrics 95 95)) = None \<and>
   filter (\<lambda>a. alert_metric a = Some CPU_USE_LIMITER_NAME)
     (fst (snd (classification utc_fromtimestamp ex_config ex_state ''alerter.system.chain_1''
                  (Result (cpu_metrics 95 95) (ex_meta 1700000100))))) = []"
proof -
  have h: "classification utc_fromtimestamp ex_config ex_state ''alerter.system.chain_1''
     (Result (cpu_metrics 95 95) (ex_meta 1700000100)) = (None, [], ex_state)"
    by (simp add: ex_defs eval_defs)
  have s: "current (m_system_cpu_usage (cpu_metrics 95 95)) =
     previous (m_system_cpu_usage (cpu_metrics 95 95))"
    by (simp add: cpu_metrics_def)
  from usage_metric_skipped [OF h] s
  have "\<forall>a \<in> set ([]::alert list). alert_metric a \<noteq> Some CPU_USE_LIMITER_NAME" by blast
  then have "filter (\<lambda>a. alert_metric a = Some CPU_USE_LIMITER_NAME) ([]::alert list) = []"
    by (simp add: filter_empty_conv)
  with h s show ?thesis by (simp add: cpu_metrics_def no_sample_def)
qed

text \<open>
  C7 as stated fails for the downtime metric: a result whose \<open>went_down_at\<close> has
  \<open>current\<close> \<open>None\<close> and a \<open>previous\<close> (the specification's scenario 7) appends the
  back-up alert.
\<close>

theorem null_current_back_up_counterexample:
  "current (went_down_at back_up_metrics) = None \<and>
   classification utc_fromtimestamp ex_config ex_down_state ''alerter.system.chain_1''
     (Result back_up_metrics (ex_meta 1700000800)) =
   (None,
    [SystemBackUpAgainAlert ''node_1'' INFO 1700000800 ''chain_1'' ''system_1''],
    ex_state) \<and>
   alert_metric (SystemBackUpAgainAlert ''node_1'' INFO 1700000800 ''chain_1'' ''system_1'') =
     Some IS_DOWN_LIMITER_NAME"
  using ex_back_up_step by (simp add: back_up_metrics_def)

section \<open>Acknowledging, pushing, draining\<close>

lemma send_data_events:
  "send_data rs q = (sent, evs, q') \<Longrightarrow>
     (\<forall>ev \<in> set evs. is_publish ev \<and> \<not> is_ack ev \<and> \<not> is_heartbeat ev) \<and>
     (sent = None \<or> sent = Some MessageWasNotDeliveredException \<or> sent = Some OtherException)"
proof (induction q arbitrary: rs sent evs q')
  case Nil
  then show ?case by simp
next
  case (Cons x q)
  show ?case
  proof (cases "next_result rs")
    case Confirmed
    obtain s1 e1 q1 where r: "send_data (tl rs) q = (s1, e1, q1)"
      using prod_cases3 by blast
    from Cons.prems Confirmed r have "sent = s1" "evs = BasicPublish x Confirmed # e1" by simp_all
    with Cons.IH [OF r] show ?thesis by simp
  next
    case NotDelivered
    with Cons.prems show ?thesis by auto
  next
    case Failed
    with Cons.prems show ?thesis by auto
  qed
qed

lemma send_heartbeat_events:
  "send_heartbeat r name ts = (h, hevs) \<Longrightarrow>
     (\<forall>ev \<in> set hevs. is_heartbeat ev \<and> \<not> is_ack ev \<and> \<not> is_publish ev)"
  by (auto simp: send_heartbeat_def split: publish_result.splits)

text \<open>
  C6, as the code has it. For every delivery whose body decodes, so that classification
  is reached: \<open>basic_ack\<close> is called exactly once, after classification and before any
  publish or heartbeat, whether classification succeeded or raised; the classified
  alerts are pushed onto the publishing queue only if classification raised nothing; the
  queue is drained in either case; a heartbeat is sent only if classification raised
  nothing; a not-delivered failure never leaves the function, and any other failure of
  the drain leaves it after the acknowledgement.
\<close>

theorem process_data_behaviour:
  assumes b: "body d = Some m"
      and c: "classification tz (alerts_configs a) (alerter_st a) (routing_key d) m = (exc, dfa, st')"
      and p: "process_data tz env a d = (res, evs, a')"
  shows "(\<exists>rest. evs = BasicAck (delivery_tag d) # rest \<and> (\<forall>ev \<in> set rest. \<not> is_ack ev)) \<and>
         ((\<exists>ev \<in> set evs. is_heartbeat ev) \<longrightarrow> exc = None) \<and>
         res \<noteq> Some MessageWasNotDeliveredException \<and>
         (ack_succeeds env \<longrightarrow>
            (\<exists>sent pevs.
               send_data (publish_results env)
                 (if exc = None
                  then place_latest_data_on_queue (publishing_queue_maxsize a)
                         (publishing_queue a) dfa
                  else publishing_queue a) = (sent, pevs, publishing_queue a') \<and>
               filter is_publish evs = pevs \<and>
               (sent = Some MessageWasNotDeliveredException \<longrightarrow> res = None) \<and>
               (sent = Some OtherException \<longrightarrow> res = Some OtherException)))"
proof (cases "ack_succeeds env")
  case False
  with b c p show ?thesis by (auto simp: process_data_def Let_def)
next
  case True
  let ?q = "if exc = None
            then place_latest_data_on_queue (publishing_queue_maxsize a) (publishing_queue a) dfa
            else publishing_queue a"
  obtain sent pevs q' where sd: "send_data (publish_results env) ?q = (sent, pevs, q')"
    using prod_cases3 by blast
  note se = send_data_events [OF sd]
  obtain h hevs where hb: "send_heartbeat (heartbeat_result env) (alerter_name a) (clock env) = (h, hevs)"
    by (cases "send_heartbeat (heartbeat_result env) (alerter_name a) (clock env)") auto
  note he = send_heartbeat_events [OF hb]
  have fp: "filter is_publish pevs = pevs" using se by (simp add: filter_id_conv)
  have fh: "filter is_publish hevs = []" using he by (simp add: filter_empty_conv)
  show ?thesis
  proof (cases exc)
    case (Some x)
    with b c p True sd se fp show ?thesis
      by (auto simp: process_data_def Let_def split: option.splits if_splits)
  next
    case None
    with b c p True sd hb se he fp fh show ?thesis
      by (auto simp: process_data_def Let_def split: option.splits if_splits)
  qed
qed

lemmas io_defs = process_data_def send_heartbeat_def next_result_def full_def

theorem process_data_behaviour_witness:
  "body ex_good_delivery = Some (cpu_result 85 95 1700000050) \<and>
   classification utc_fromtimestamp (alerts_configs ex_alerter) (alerter_st ex_alerter)
     (routing_key ex_good_delivery) (cpu_result 85 95 1700000050) =
     (None,
      [SystemCPUUsageIncreasedAboveThresholdAlert ''node_1'' 95 CRITICAL 1700000050 CRITICAL
         ''chain_1'' ''system_1''],
      set_limiter ex_state ''system_1'' CPU_USE_LIMITER_NAME
        (set_last_time_that_did_task (ex_limiters CPU_USE_LIMITER_NAME) 1700000050)) \<and>
   process_data utc_fromtimestamp ex_broker ex_alerter ex_good_delivery =
     (None,
      [BasicAck 8, BasicPublish ex_item Confirmed,
       BasicPublish
         \<lparr>item_exchange = ALERT_EXCHANGE, item_routing_key = ''alert_router.system'',
          item_data = SystemCPUUsageIncreasedAboveThresholdAlert ''node_1'' 95 CRITICAL
                        1700000050 CRITICAL ''chain_1'' ''system_1''\<rparr>
         Confirmed,
       SendHeartbeat ''system_alerter'' 1700000051 Confirmed],
      ex_alerter\<lparr>alerter_st :=
                    set_limiter ex_state ''system_1'' CPU_USE_LIMITER_NAME
                      (set_last_time_that_did_task (ex_limiters CPU_USE_LIMITER_NAME)
                         1700000050),
                  publishing_queue := []\<rparr>) \<and>
   (\<exists>rest. [BasicAck 8, BasicPublish ex_item Confirmed,
       BasicPublish
         \<lparr>item_exchange = ALERT_EXCHANGE, item_routing_key = ''alert_router.system'',
          item_data = SystemCPUUsageIncreasedAboveThresholdAlert ''node_1'' 95 CRITICAL
                        1700000050 CRITICAL ''chain_1'' ''system_1''\<rparr>
         Confirmed,
       SendHeartbeat ''system_alerter'' 1700000051 Confirmed] =
       BasicAck (delivery_tag ex_good_delivery) # rest \<and> filter is_ack rest = [])"
proof -
  have h1: "body ex_good_delivery = Some (cpu_result 85 95 1700000050)"
    by (simp add: ex_good_delivery_def)
  have h2: "classification utc_fromtimestamp (alerts_configs ex_alerter) (alerter_st ex_alerter)
     (routing_key ex_good_delivery) (cpu_result 85 95 1700000050) =
     (None,
      [SystemCPUUsageIncreasedAboveThresholdAlert ''node_1'' 95 CRITICAL 1700000050 CRITICAL
         ''chain_1'' ''system_1''],
      set_limiter ex_state ''system_1'' CPU_USE_LIMITER_NAME
        (set_last_time_that_did_task (ex_limiters CPU_USE_LIMITER_NAME) 1700000050))"
    by (simp add: ex_defs eval_defs)
  have h3: "process_data utc_fromtimestamp ex_broker ex_alerter ex_good_delivery =
     (None,
      [BasicAck 8, BasicPublish ex_item Confirmed,
       BasicPublish
         \<lparr>item_exchange = ALERT_EXCHANGE, item_routing_key = ''alert_router.system'',
          item_data = SystemCPUUsageIncreasedAboveThresholdAlert ''node_1'' 95 CRITICAL
                        1700000050 CRITICAL ''chain_1'' ''system_1''\<rparr>
         Confirmed,
       SendHeartbeat ''system_alerter'' 1700000051 Confirmed],
      ex_alerter\<lparr>alerter_st :=
                    set_limiter ex_state ''system_1'' CPU_USE_LIMITER_NAME
                      (set_last_time_that_did_task (ex_limiters CPU_USE_LIMITER_NAME)
                         1700000050),
                  publishing_queue := []\<rparr>)"
    by (simp add: ex_defs eval_defs io_defs)
  from process_data_behaviour [OF h1 h2 h3]
  obtain rest where
    "[BasicAck 8, BasicPublish ex_item Confirmed,
       BasicPublish
         \<lparr>item_exchange = ALERT_EXCHANGE, item_routing_key = ''alert_router.system'',
          item_data = SystemCPUUsageIncreasedAboveThresholdAlert ''node_1'' 95 CRITICAL
                        1700000050 CRITICAL ''chain_1'' ''system_1''\<rparr>
         Confirmed,
       SendHeartbeat ''system_alerter'' 1700000051 Confirmed] =
       BasicAck (delivery_tag ex_good_delivery) # rest" "\<forall>ev \<in> set rest. \<not> is_ack ev"
    by blast
  then have "[BasicAck 8, BasicPublish ex_item Confirmed,
       BasicPublish
         \<lparr>item_exchange = ALERT_EXCHANGE, item_routing_key = ''alert_router.system'',
          item_data = SystemCPUUsageIncreasedAboveThresholdAlert ''node_1'' 95 CRITICAL
                        1700000050 CRITICAL ''chain_1'' ''system_1''\<rparr>
         Confirmed,
       SendHeartbeat ''system_alerter'' 1700000051 Confirmed] =
       BasicAck (delivery_tag ex_good_delivery) # rest \<and> filter is_ack rest = []"
    by (simp add: filter_empty_conv)
  with h1 h2 h3 show ?thesis by blast
qed

text \<open>
  C6 as stated fails where it lets the drain depend on classification: a delivery of
  unexpected shape fails classification, and the alert already waiting in the
  publishing queue is published all the same.
\<close>

theorem drain_after_failed_classification_counterexample:
  "classification utc_fromtimestamp (alerts_configs ex_alerter) (alerter_st ex_alerter)
     (routing_key ex_bad_delivery) Unexpected =
     (Some ReceivedUnexpectedDataException, [], ex_state) \<and>
   process_data utc_fromtimestamp ex_broker ex_alerter ex_bad_delivery =
     (None, [BasicAck 7, BasicPublish ex_item Confirmed],
      ex_alerter\<lparr>publishing_queue := []\<rparr>)"
  by (simp add: ex_defs eval_defs io_defs)

section \<open>The manager's ping\<close>

lemma poll_processes_eq:
  "poll_processes d =
     (map fst (filter snd d), map fst (filter (\<lambda>x. \<not> snd x) d),
      map Join (map fst (filter (\<lambda>x. \<not> snd x) d)))"
  by (induction d) (auto split: prod.splits)

lemma map_fst_dict_set:
  "map fst (dict_set k v d) = (if k \<in> fst ` set d then map fst d else map fst d @ [k])"
  by (induction d) force+

lemma map_of_dict_set: "map_of (dict_set k v d) = (map_of d)(k \<mapsto> v)"
  by (induction d) (auto simp: fun_eq_iff)

lemma distinct_dict_set: "distinct (map fst d) \<Longrightarrow> distinct (map fst (dict_set k v d))"
  by (simp add: map_fst_dict_set)

lemma start_if_missing_ok:
  assumes "cs n"
  shows "start_if_missing cs n d =
           (None, if map_of d n \<noteq> Some True then [Start n] else [],
            if map_of d n \<noteq> Some True then dict_set n True d else d)"
  using assms by (simp add: start_if_missing_def)

lemma start_transformers_ok:
  assumes ok: "\<forall>n. cs n" and dist: "distinct (map fst d)"
      and run: "start_transformers_processes cs sysn ghn d = (e, evs, d')"
  shows "e = None \<and> distinct (map fst d') \<and>
         map_of d' sysn = Some True \<and> map_of d' ghn = Some True \<and>
         (\<forall>n. n \<noteq> sysn \<and> n \<noteq> ghn \<longrightarrow> map_of d' n = map_of d n) \<and>
         (\<forall>n. (n = sysn \<or> n = ghn) \<and> map_of d n \<noteq> Some True \<longrightarrow> Start n \<in> set evs)"
proof -
  have m: "e = None \<and>
         map_of d' sysn = Some True \<and> map_of d' ghn = Some True \<and>
         (\<forall>n. n \<noteq> sysn \<and> n \<noteq> ghn \<longrightarrow> map_of d' n = map_of d n) \<and>
         (\<forall>n. (n = sysn \<or> n = ghn) \<and> map_of d n \<noteq> Some True \<longrightarrow> Start n \<in> set evs)"
    using run ok
    by (auto simp: start_transformers_processes_def start_if_missing_ok map_of_dict_set
          split: if_splits)
  have "distinct (map fst d')"
    using run ok distinct_dict_set [OF dist, of sysn True]
      distinct_dict_set [OF distinct_dict_set [OF dist, of sysn True], of ghn True]
      distinct_dict_set [OF dist, of ghn True] dist
    by (auto simp: start_transformers_processes_def start_if_missing_ok split: if_splits)
  with m show ?thesis by blast
qed

lemma all_alive_poll:
  assumes "\<forall>x \<in> set d. snd x"
  shows "poll_processes d = (map fst d, [], [])"
  using assms by (simp add: poll_processes_eq filter_empty_conv)

lemma process_ping_first:
  assumes dist: "distinct (map fst d)"
      and keys: "fst ` set d \<subseteq> {sysn, ghn}"
      and ok: "\<forall>n. can_start env n"
      and p1: "process_ping env name sysn ghn d = (res, evs, d')"
  shows "\<exists>pre hb r.
           evs = pre @ [PublishHeartbeat HEALTH_CHECK_EXCHANGE ''heartbeat.manager'' hb r] \<and>
           component_name hb = name \<and>
           (\<forall>n. n \<in> set (running_processes hb) \<longleftrightarrow> (n, True) \<in> set d) \<and>
           (\<forall>n. n \<in> set (dead_processes hb) \<longleftrightarrow> (n, False) \<in> set d) \<and>
           (\<forall>n. (n, False) \<in> set d \<longrightarrow> Join n \<in> set pre \<and> Start n \<in> set pre) \<and>
           (\<forall>x \<in> set d'. snd x) \<and> fst ` set d \<subseteq> fst ` set d'"
proof -
  let ?running = "map fst (filter snd d)"
  let ?dead = "map fst (filter (\<lambda>x. \<not> snd x) d)"
  let ?joins = "map Join ?dead"
  let ?hb = "\<lparr>component_name = name, running_processes = ?running,
              dead_processes = ?dead, timestamp = manager_clock env\<rparr>"
  have run_iff: "\<forall>n. n \<in> set ?running \<longleftrightarrow> (n, True) \<in> set d" by force
  have dead_iff: "\<forall>n. n \<in> set ?dead \<longleftrightarrow> (n, False) \<in> set d" by force
  have join_iff: "\<forall>n. (n, False) \<in> set d \<longrightarrow> Join n \<in> set ?joins" by force
  show ?thesis
  proof (cases "?dead = []")
    case True
    then have alive: "\<forall>x \<in> set d. snd x" by (auto simp: filter_empty_conv)
    from p1 True have
      "evs = [] @ [PublishHeartbeat HEALTH_CHECK_EXCHANGE ''heartbeat.manager'' ?hb
                     (heartbeat_delivery env)] \<and> d' = d"
      by (auto simp: process_ping_def poll_processes_eq Let_def split: publish_result.splits)
    moreover from alive have "\<forall>n. (n, False) \<notin> set d" by auto
    ultimately show ?thesis using run_iff dead_iff alive
      by (intro exI [of _ "[]"] exI [of _ ?hb] exI [of _ "heartbeat_delivery env"]) simp
  next
    case False
    obtain e starts d1 where st: "start_transformers_processes (can_start env) sysn ghn d =
        (e, starts, d1)"
      using prod_cases3 by blast
    from start_transformers_ok [OF ok dist st]
    have e: "e = None" and d1: "distinct (map fst d1)"
      and s1: "map_of d1 sysn = Some True" and g1: "map_of d1 ghn = Some True"
      and others: "\<forall>n. n \<noteq> sysn \<and> n \<noteq> ghn \<longrightarrow> map_of d1 n = map_of d n"
      and started: "\<forall>n. (n = sysn \<or> n = ghn) \<and> map_of d n \<noteq> Some True \<longrightarrow> Start n \<in> set starts"
      by blast+
    from p1 False st e have
      ev: "evs = (?joins @ starts) @ [PublishHeartbeat HEALTH_CHECK_EXCHANGE ''heartbeat.manager''
                     ?hb (heartbeat_delivery env)]" and d': "d' = d1"
      by (auto simp: process_ping_def poll_processes_eq Let_def split: publish_result.splits)
    have restarted: "\<forall>n. (n, False) \<in> set d \<longrightarrow> Join n \<in> set (?joins @ starts) \<and>
                         Start n \<in> set (?joins @ starts)"
    proof (intro allI impI)
      fix n assume n: "(n, False) \<in> set d"
      with keys have k: "n = sysn \<or> n = ghn" by force
      from n dist have "map_of d n = Some False" by simp
      then have "map_of d n \<noteq> Some True" by simp
      with k started have "Start n \<in> set starts" by blast
      with n join_iff show "Join n \<in> set (?joins @ starts) \<and> Start n \<in> set (?joins @ starts)"
        by simp
    qed
    have alive: "\<forall>x \<in> set d1. snd x"
    proof
      fix x assume x: "x \<in> set d1"
      obtain n a where xa: "x = (n, a)" by (cases x)
      with x d1 have m: "map_of d1 n = Some a" by simp
      show "snd x"
      proof (cases "n = sysn \<or> n = ghn")
        case True
        with m s1 g1 xa show ?thesis by auto
      next
        case False
        with others m have "map_of d n = Some a" by simp
        then have "(n, a) \<in> set d" by (rule map_of_SomeD)
        with keys False show ?thesis by force
      qed
    qed
    have sub: "fst ` set d \<subseteq> fst ` set d1"
    proof
      fix n assume "n \<in> fst ` set d"
      with keys have "n = sysn \<or> n = ghn" by blast
      with s1 g1 have "map_of d1 n = Some True" by auto
      then have "(n, True) \<in> set d1" by (rule map_of_SomeD)
      then show "n \<in> fst ` set d1" by force
    qed
    show ?thesis
      using ev d' run_iff dead_iff restarted alive sub
      by (intro exI [of _ "?joins @ starts"] exI [of _ ?hb] exI [of _ "heartbeat_delivery env"])
         simp
  qed
qed

lemma process_ping_all_alive:
  assumes alive: "\<forall>x \<in> set d. snd x"
      and p: "process_ping env name sysn ghn d = (res, evs, d')"
  shows "\<exists>hb r. evs = [] @ [PublishHeartbeat HEALTH_CHECK_EXCHANGE ''heartbeat.manager'' hb r] \<and>
           dead_processes hb = [] \<and> running_processes hb = map fst d"
  using p
  by (auto simp: process_ping_def all_alive_poll [OF alive] Let_def split: publish_result.splits)

text \<open>
  C9. On a ping, with the children among the two supervised names, no child changing
  between the poll and the next ping, and process starts succeeding: the last broker call
  is the publish of the heartbeat to \<open>HEALTH_CHECK_EXCHANGE\<close> with routing key
  \<open>heartbeat.manager\<close>; a name is under the running processes iff its process is alive
  and under the dead ones iff it is not; every dead child is joined and restarted before
  that publish, and the heartbeat still lists it as dead; the next ping publishes a
  heartbeat with no dead process that lists the restarted child as running.
\<close>

theorem ping_heartbeat_then_restart:
  assumes dist: "distinct (map fst d)"
      and keys: "fst ` set d \<subseteq> {sysn, ghn}"
      and ok: "\<forall>n. can_start env n"
      and p1: "process_ping env name sysn ghn d = (res, evs, d')"
      and p2: "process_ping env' name sysn ghn d' = (res', evs', d'')"
  shows "\<exists>pre hb r.
           evs = pre @ [PublishHeartbeat HEALTH_CHECK_EXCHANGE ''heartbeat.manager'' hb r] \<and>
           (\<forall>n. n \<in> set (running_processes hb) \<longleftrightarrow> (n, True) \<in> set d) \<and>
           (\<forall>n. n \<in> set (dead_processes hb) \<longleftrightarrow> (n, False) \<in> set d) \<and>
           (\<forall>n. (n, False) \<in> set d \<longrightarrow> Join n \<in> set pre \<and> Start n \<in> set pre) \<and>
           (\<exists>hb' r'.
              evs' = [PublishHeartbeat HEALTH_CHECK_EXCHANGE ''heartbeat.manager'' hb' r'] \<and>
              dead_processes hb' = [] \<and>
              (\<forall>n. (n, False) \<in> set d \<longrightarrow> n \<in> set (running_processes hb')))"
proof -
  from process_ping_first [OF dist keys ok p1] obtain pre hb r where
    f: "evs = pre @ [PublishHeartbeat HEALTH_CHECK_EXCHANGE ''heartbeat.manager'' hb r]"
       "\<forall>n. n \<in> set (running_processes hb) \<longleftrightarrow> (n, True) \<in> set d"
       "\<forall>n. n \<in> set (dead_processes hb) \<longleftrightarrow> (n, False) \<in> set d"
       "\<forall>n. (n, False) \<in> set d \<longrightarrow> Join n \<in> set pre \<and> Start n \<in> set pre"
       "\<forall>x \<in> set d'. snd x" "fst ` set d \<subseteq> fst ` set d'"
    by blast
  from process_ping_all_alive [OF f(5) p2] obtain hb' r' where
    s: "evs' = [PublishHeartbeat HEALTH_CHECK_EXCHANGE ''heartbeat.manager'' hb' r']"
       "dead_processes hb' = []" "running_processes hb' = map fst d'"
    by auto
  have "\<forall>n. (n, False) \<in> set d \<longrightarrow> n \<in> set (running_processes hb')"
  proof (intro allI impI)
    fix n assume "(n, False) \<in> set d"
    then have "n \<in> fst ` set d" by force
    with f(6) s(3) show "n \<in> set (running_processes hb')" by auto
  qed
  with f(1-4) s(1,2) show ?thesis by blast
qed

theorem ping_heartbeat_then_restart_witness:
  "distinct (map fst ex_dict) \<and>
   fst ` set ex_dict \<subseteq> {''System Data Transformer'', ''GitHub Data Transformer''} \<and>
   (\<forall>n. can_start ex_manager_env n) \<and>
   process_ping ex_manager_env ''Data Transformers Manager'' ''System Data Transformer''
     ''GitHub Data Transformer'' ex_dict =
     (None,
      [Join ''GitHub Data Transformer'', Start ''GitHub Data Transformer'',
       PublishHeartbeat HEALTH_CHECK_EXCHANGE ''heartbeat.manager''
         \<lparr>component_name = ''Data Transformers Manager'',
          running_processes = [''System Data Transformer''],
          dead_processes = [''GitHub Data Transformer''], timestamp = 1700000000\<rparr>
         Confirmed],
      [(''System Data Transformer'', True), (''GitHub Data Transformer'', True)]) \<and>
   process_ping ex_manager_env ''Data Transformers Manager'' ''System Data Transformer''
     ''GitHub Data Transformer''
     [(''System Data Transformer'', True), (''GitHub Data Transformer'', True)] =
     (None,
      [PublishHeartbeat HEALTH_CHECK_EXCHANGE ''heartbeat.manager''
         \<lparr>component_name = ''Data Transformers Manager'',
          running_processes = [''System Data Transformer'', ''GitHub Data Transformer''],
          dead_processes = [], timestamp = 1700000000\<rparr>
         Confirmed],
      [(''System Data Transformer'', True), (''GitHub Data Transformer'', True)]) \<and>
   (\<exists>pre hb r.
      [Join ''GitHub Data Transformer'', Start ''GitHub Data Transformer'',
       PublishHeartbeat HEALTH_CHECK_EXCHANGE ''heartbeat.manager''
         \<lparr>component_name = ''Data Transformers Manager'',
          running_processes = [''System Data Transformer''],
          dead_processes = [''GitHub Data Transformer''], timestamp = 1700000000\<rparr>
         Confirmed] =
        pre @ [PublishHeartbeat HEALTH_CHECK_EXCHANGE ''heartbeat.manager'' hb r] \<and>
      Join ''GitHub Data Transformer'' \<in> set pre \<and>
      Start ''GitHub Data Transformer'' \<in> set pre)"
proof -
  have h1: "distinct (map fst ex_dict)" by (simp add: ex_dict_def)
  have h2: "fst ` set ex_dict \<subseteq> {''System Data Transformer'', ''GitHub Data Transformer''}"
    by (simp add: ex_dict_def)
  have h3: "\<forall>n. can_start ex_manager_env n" by (simp add: ex_manager_env_def)
  have h4: "process_ping ex_manager_env ''Data Transformers Manager'' ''System Data Transformer''
     ''GitHub Data Transformer'' ex_dict =
     (None,
      [Join ''GitHub Data Transformer'', Start ''GitHub Data Transformer'',
       PublishHeartbeat HEALTH_CHECK_EXCHANGE ''heartbeat.manager''
         \<lparr>component_name = ''Data Transformers Manager'',
          running_processes = [''System Data Transformer''],
          dead_processes = [''GitHub Data Transformer''], timestamp = 1700000000\<rparr>
         Confirmed],
      [(''System Data Transformer'', True), (''GitHub Data Transformer'', True)])"
    by (simp add: ex_dict_def ex_manager_env_def process_ping_def Let_def
          start_transformers_processes_def start_if_missing_def)
  have h5: "process_ping ex_manager_env ''Data Transformers Manager'' ''System Data Transformer''
     ''GitHub Data Transformer''
     [(''System Data Transformer'', True), (''GitHub Data Transformer'', True)] =
     (None,
      [PublishHeartbeat HEALTH_CHECK_EXCHANGE ''heartbeat.manager''
         \<lparr>component_name = ''Data Transformers Manager'',
          running_processes = [''System Data Transformer'', ''GitHub Data Transformer''],
          dead_processes = [], timestamp = 1700000000\<rparr>
         Confirmed],
      [(''System Data Transformer'', True), (''GitHub Data Transformer'', True)])"
    by (simp add: ex_manager_env_def process_ping_def Let_def)
  have h6: "(''GitHub Data Transformer'', False) \<in> set ex_dict" by (simp add: ex_dict_def)
  from ping_heartbeat_then_restart [OF h1 h2 h3 h4 h5] h6
  have "\<exists>pre hb r.
      [Join ''GitHub Data Transformer'', Start ''GitHub Data Transformer'',
       PublishHeartbeat HEALTH_CHECK_EXCHANGE ''heartbeat.manager''
         \<lparr>component_name = ''Data Transformers Manager'',
          running_processes = [''System Data Transformer''],
          dead_processes = [''GitHub Data Transformer''], timestamp = 1700000000\<rparr>
         Confirmed] =
        pre @ [PublishHeartbeat HEALTH_CHECK_EXCHANGE ''heartbeat.manager'' hb r] \<and>
      Join ''GitHub Data Transformer'' \<in> set pre \<and>
      Start ''GitHub Data Transformer'' \<in> set pre"
    by blast
  with h1 h2 h3 h4 h5 show ?thesis by blast
qed

end
